theory Spec2Isabelle
  imports Main
begin

section \<open>Python values, exceptions and strings\<close>

text \<open>
  The launcher is Python. Attribute values of the configuration object and the values of
  the dictionaries rendered into directives are dynamically typed: the dataclass
  annotations are not enforced at run time, so a field annotated \<open>Optional[int]\<close> can
  hold a bool or a string. \<open>pyval\<close> is the scalar part of that universe. Strings are
  \<open>char list\<close>; the model covers the code points below 256.
\<close>

datatype pyval = VNone | VBool bool | VInt int | VStr string

text \<open>
  Exceptions are values. \<open>OSError\<close> carries the file name the failing system call was
  about; \<open>FileNotFoundError\<close> and \<open>PermissionError\<close> are subclasses of it, and none of
  the handlers of the source tells them apart.
\<close>

datatype pyerr =
    ValueError string
  | CalledProcessError int
  | OSError string
  | IndexError
  | UnicodeDecodeError

subsection \<open>\<open>str()\<close> and f-string formatting\<close>

definition digit_char :: "nat \<Rightarrow> char" where
  "digit_char d = ''0123456789'' ! d"

fun str_nat :: "nat \<Rightarrow> string" where
  "str_nat n = (if n < 10 then [digit_char n] else str_nat (n div 10) @ [digit_char (n mod 10)])"

declare str_nat.simps [simp del]

definition str_int :: "int \<Rightarrow> string" where
  "str_int i = (if i < 0 then CHR ''-'' # str_nat (nat (- i)) else str_nat (nat i))"

fun py_str :: "pyval \<Rightarrow> string" where
  "py_str VNone = ''None''"
| "py_str (VBool b) = (if b then ''True'' else ''False'')"
| "py_str (VInt i) = str_int i"
| "py_str (VStr s) = s"

subsection \<open>String methods\<close>

fun startswith :: "string \<Rightarrow> string \<Rightarrow> bool" where
  "startswith s [] = True"
| "startswith [] (p # ps) = False"
| "startswith (c # cs) (p # ps) = (c = p \<and> startswith cs ps)"

definition endswith :: "string \<Rightarrow> string \<Rightarrow> bool" where
  "endswith s p = startswith (rev s) (rev p)"

text \<open>\<open>sub in s\<close>: \<open>sub\<close> occurs in \<open>s\<close> as a contiguous run.\<close>

fun str_in :: "string \<Rightarrow> string \<Rightarrow> bool" where
  "str_in sub [] = (sub = [])"
| "str_in sub (c # cs) = (startswith (c # cs) sub \<or> str_in sub cs)"

text \<open>\<open>sep.join(xs)\<close>\<close>

fun str_join :: "string \<Rightarrow> string list \<Rightarrow> string" where
  "str_join sep [] = []"
| "str_join sep [x] = x"
| "str_join sep (x # y # ys) = x @ sep @ str_join sep (y # ys)"

text \<open>\<open>s.replace("_", "-")\<close>, character for character.\<close>

definition replace_char :: "char \<Rightarrow> char \<Rightarrow> string \<Rightarrow> string" where
  "replace_char a b s = map (\<lambda>c. if c = a then b else c) s"

text \<open>
  The characters \<open>str.isspace\<close> accepts below code point 256: tab, line feed, vertical
  tab, form feed, carriage return, the four separators 0x1C to 0x1F, space, next line (0x85)
  and no-break space (0xA0).
\<close>

definition whitespace :: "char list" where
  "whitespace = [CHR 0x09, CHR 0x0A, CHR 0x0B, CHR 0x0C, CHR 0x0D, CHR 0x1C, CHR 0x1D,
                 CHR 0x1E, CHR 0x1F, CHR 0x20, CHR 0x85, CHR 0xA0]"

definition isspace :: "char \<Rightarrow> bool" where
  "isspace c = (c \<in> set whitespace)"

definition strip :: "string \<Rightarrow> string" where
  "strip s = rev (dropWhile isspace (rev (dropWhile isspace s)))"

text \<open>
  \<open>s.split()\<close> with no separator: the maximal runs of non-whitespace characters, in
  order; never an empty token. \<open>cur\<close> is the run being read, reversed.
\<close>

fun split_from :: "string \<Rightarrow> string \<Rightarrow> string list" where
  "split_from cur [] = (if cur = [] then [] else [rev cur])"
| "split_from cur (c # cs) =
     (if isspace c then (if cur = [] then split_from [] cs else rev cur # split_from [] cs)
      else split_from (c # cur) cs)"

definition split_ws :: "string \<Rightarrow> string list" where
  "split_ws s = split_from [] s"

text \<open>
  \<open>s.splitlines()\<close>: the line boundaries below code point 256 are line feed, carriage
  return, carriage return followed by line feed (one boundary), vertical tab, form feed,
  0x1C, 0x1D, 0x1E and 0x85. The boundaries are dropped and a final boundary opens no
  further line.
\<close>

definition linebreaks :: "char list" where
  "linebreaks = [CHR 0x0A, CHR 0x0D, CHR 0x0B, CHR 0x0C, CHR 0x1C, CHR 0x1D, CHR 0x1E, CHR 0x85]"

fun splitlines_from :: "string \<Rightarrow> string \<Rightarrow> string list" where
  "splitlines_from cur [] = (if cur = [] then [] else [rev cur])"
| "splitlines_from cur [c] =
     (if c \<in> set linebreaks then [rev cur] else [rev (c # cur)])"
| "splitlines_from cur (c # d # cs) =
     (if c = CHR 0x0D \<and> d = CHR 0x0A then rev cur # splitlines_from [] cs
      else if c \<in> set linebreaks then rev cur # splitlines_from [] (d # cs)
      else splitlines_from (c # cur) (d # cs))"

definition splitlines :: "string \<Rightarrow> string list" where
  "splitlines s = splitlines_from [] s"

subsection \<open>\<open>shlex.quote\<close> and \<open>os.path.join\<close>\<close>

text \<open>
  \<open>shlex.quote\<close> of the standard library: the empty string becomes two single quotes; a
  string of safe characters only (the ASCII class \<open>[\w@%+=:,./-]\<close>) is returned as it is;
  any other string is wrapped in single quotes, each single quote inside written as
  \<open>'"'"'\<close>.
\<close>

definition shlex_safe :: "char list" where
  "shlex_safe = ''abcdefghijklmnopqrstuvwxyzABCDEFGHIJKLMNOPQRSTUVWXYZ0123456789_@%+=:,./-''"

definition shlex_quote :: "string \<Rightarrow> string" where
  "shlex_quote s =
     (if s = [] then [CHR 0x27, CHR 0x27]
      else if list_all (\<lambda>c. c \<in> set shlex_safe) s then s
      else [CHR 0x27]
           @ concat (map (\<lambda>c. if c = CHR 0x27
                                then [CHR 0x27, CHR 0x22, CHR 0x27, CHR 0x22, CHR 0x27]
                                else [c]) s)
           @ [CHR 0x27])"

text \<open>\<open>os.path.join(a, b)\<close> on POSIX, for two components.\<close>

definition os_path_join :: "string \<Rightarrow> string \<Rightarrow> string" where
  "os_path_join a b =
     (if startswith b ''/'' then b
      else if a = [] \<or> endswith a ''/'' then a @ b
      else a @ ''/'' @ b)"

subsection \<open>Dictionaries in insertion order\<close>

text \<open>
  A Python dict iterates in insertion order, and assigning to a key that is present keeps
  the key's position. \<open>dict_update d e\<close> is \<open>d.update(e)\<close>.
\<close>

fun dict_set :: "(string \<times> 'v) list \<Rightarrow> string \<Rightarrow> 'v \<Rightarrow> (string \<times> 'v) list" where
  "dict_set [] k v = [(k, v)]"
| "dict_set ((k', v') # d) k v =
     (if k' = k then (k', v) # d else (k', v') # dict_set d k v)"

fun dict_update :: "(string \<times> 'v) list \<Rightarrow> (string \<times> 'v) list \<Rightarrow> (string \<times> 'v) list" where
  "dict_update d [] = d"
| "dict_update d ((k, v) # e) = dict_update (dict_set d k v) e"

section \<open>The directive renderer\<close>

text \<open>
  \<open>as_sbatch_flag(key, value)\<close>: underscores of the key become hyphens; a bool of either
  truth value gives the bare flag; any other value is rendered with \<open>str\<close> and quoted
  for the shell.
\<close>

definition as_sbatch_flag :: "string \<Rightarrow> pyval \<Rightarrow> string" where
  "as_sbatch_flag key value =
     (let key = replace_char CHR ''_'' CHR ''-'' key in
      case value of
        VBool b \<Rightarrow> ''#SBATCH --'' @ key
      | _ \<Rightarrow> ''#SBATCH --'' @ key @ ''='' @ shlex_quote (py_str value))"

section \<open>The resource specification\<close>

text \<open>
  The dataclass \<open>SlurmQueueConf\<close>. The attributes \<open>_target_\<close>, \<open>begin\<close> and \<open>setup\<close>
  are the fields \<open>target\<close>, \<open>begin_time\<close> and \<open>setup_cmds\<close> here; the keys that
  \<open>vars\<close> reports keep the Python spelling.
\<close>

record SlurmQueueConf =
  target :: string
  partition :: pyval
  job_name :: pyval
  job_array_name :: pyval
  nodes :: pyval
  ntasks :: pyval
  ntasks_per_node :: pyval
  cpus_per_task :: pyval
  mem :: pyval
  time :: pyval
  gres :: pyval
  gpus :: pyval
  account :: pyval
  qos :: pyval
  begin_time :: pyval
  mail_type :: pyval
  mail_user :: pyval
  additional :: "(string \<times> pyval) list"
  setup_cmds :: "string list"

text \<open>The field defaults of the dataclass.\<close>

definition default_conf :: SlurmQueueConf where
  "default_conf =
     \<lparr>target = ''hydra_plugins.hydra_slurm_launcher.slurmlauncher.SlurmLauncher'',
      partition = VStr ''default'', job_name = VNone, job_array_name = VNone,
      nodes = VNone, ntasks = VNone, ntasks_per_node = VNone, cpus_per_task = VNone,
      mem = VNone, time = VNone, gres = VNone, gpus = VNone, account = VNone, qos = VNone,
      begin_time = VNone, mail_type = VNone, mail_user = VNone,
      additional = [], setup_cmds = []\<rparr>"

definition quoted :: "string \<Rightarrow> string" where
  "quoted s = [CHR 0x27] @ s @ [CHR 0x27]"

text \<open>
  \<open>__post_init__\<close>, run by the generated \<open>__init__\<close> after it has assigned every
  field: the argument is the object as assigned, the result the object the constructor
  hands out, or the exception it raises.
\<close>

definition post_init :: "SlurmQueueConf \<Rightarrow> pyerr + SlurmQueueConf" where
  "post_init self =
     (if gpus self \<noteq> VNone \<and> gres self \<noteq> VNone
      then Inl (ValueError (''Cannot specify both '' @ quoted ''gpus'' @ '' and '' @ quoted ''gres''))
      else
        let self = (if gpus self \<noteq> VNone
                    then self\<lparr>gres := VStr (''gpu:'' @ py_str (gpus self))\<rparr> else self)
        in if job_name self \<noteq> VNone \<and> job_array_name self \<noteq> VNone
           then Inl (ValueError (''Cannot specify both '' @ quoted ''job_name'' @ '' and ''
                                 @ quoted ''job_array_name''))
           else Inr self)"

text \<open>
  \<open>vars(config).items()\<close>, in the order the fields are declared, for the scalar
  attributes. The two container attributes \<open>additional\<close> and \<open>setup\<close> are left out: both
  \<open>non_slurm\<close> lists below name them, so the comprehension over \<open>vars(config)\<close> drops
  them in either script generator.
\<close>

definition vars :: "SlurmQueueConf \<Rightarrow> (string \<times> pyval) list" where
  "vars c =
     [(''_target_'', VStr (target c)), (''partition'', partition c),
      (''job_name'', job_name c), (''job_array_name'', job_array_name c),
      (''nodes'', nodes c), (''ntasks'', ntasks c),
      (''ntasks_per_node'', ntasks_per_node c), (''cpus_per_task'', cpus_per_task c),
      (''mem'', mem c), (''time'', time c), (''gres'', gres c), (''gpus'', gpus c),
      (''account'', account c), (''qos'', qos c), (''begin'', begin_time c),
      (''mail_type'', mail_type c), (''mail_user'', mail_user c)]"

section \<open>The file system\<close>

text \<open>
  The files the launcher writes are the descriptor store (\<open>json.dump\<close> of a list of
  dicts, kept as that list) and the scripts (text). \<open>unwritable\<close> tells for which paths
  \<open>open(path, "w")\<close> raises; \<open>modes\<close> records \<open>os.chmod\<close>.
\<close>

datatype file_data = Text string | JsonDump "(string \<times> pyval) list list"

record filesystem =
  files :: "string \<rightharpoonup> file_data"
  modes :: "string \<rightharpoonup> nat"
  unwritable :: "string \<Rightarrow> bool"

definition write_file :: "filesystem \<Rightarrow> string \<Rightarrow> file_data \<Rightarrow> pyerr + filesystem" where
  "write_file fs path d =
     (if unwritable fs path then Inl (OSError path)
      else Inr (fs\<lparr>files := (files fs)(path \<mapsto> d)\<rparr>))"

definition os_chmod :: "filesystem \<Rightarrow> string \<Rightarrow> nat \<Rightarrow> pyerr + filesystem" where
  "os_chmod fs path m =
     (case files fs path of
        None \<Rightarrow> Inl (OSError path)
      | Some d \<Rightarrow> Inr (fs\<lparr>modes := (modes fs)(path \<mapsto> m)\<rparr>))"

section \<open>The script compiler\<close>

subsection \<open>Array mode\<close>

definition non_slurm_array :: "string list" where
  "non_slurm_array = [''additional'', ''setup'', ''_target_'', ''job_name'', ''job_array_name'']"

text \<open>
  The dict \<open>params\<close> of \<open>generate_array_script\<close>: the attributes that are not None and
  not in \<open>non_slurm\<close>, then the computed \<open>array\<close> range, then the entries of
  \<open>additional\<close>, which replace what is there under the same key.
\<close>

definition array_params :: "SlurmQueueConf \<Rightarrow> nat \<Rightarrow> (string \<times> pyval) list" where
  "array_params config array_size =
     (let paths = [(''array'', VStr (''0-'' @ str_int (int array_size - 1)))];
          params = filter (\<lambda>(k, v). v \<noteq> VNone \<and> k \<notin> set non_slurm_array) (vars config);
          params = dict_update params paths
      in if additional config \<noteq> [] then dict_update params (additional config) else params)"

text \<open>The lines the array member runs before the command, around the path of the store.\<close>

definition runtime_lines :: "string \<Rightarrow> string list" where
  \<open>runtime_lines config_file =
     ['' '',
      ''# Get task-specific configuration'',
      ''CONFIG=$(python -c "import json; import os; import sys; f=open('' @ [CHR 0x27]
        @ config_file
        @ [CHR 0x27] @ ''); ''
        @ ''configs=json.load(f); task_id=int(os.environ['SLURM_ARRAY_TASK_ID']); ''
        @ ''print(json.dumps(configs[task_id])) if 0 <= task_id < len(configs) else sys.exit(1)")'',
      '' '',
      ''if [ $? -ne 0 ]; then'',
      ''    echo "Error: Could not retrieve configuration for task $SLURM_ARRAY_TASK_ID"'',
      ''    exit 1'',
      ''fi'',
      '' '',
      ''# Extract task-specific information'',
      ''OVERRIDES=$(echo $CONFIG | python -c "import json; import sys; print(json.loads(sys.stdin.read())['overrides'])")'',
      ''JOB_NAME=$(echo $CONFIG | python -c "import json; import sys; print(json.loads(sys.stdin.read())['job_name'])")'',
      ''OUTPUT_DIR=$(echo $CONFIG | python -c "import json; import sys; print(json.loads(sys.stdin.read())['output_dir'])")'',
      '' '',
      ''# Create output directory if it doesn't exist'',
      ''mkdir -p "$OUTPUT_DIR"'',
      '' '',
      ''# Redirect all output to the job-specific files'',
      ''exec > "$OUTPUT_DIR/${JOB_NAME}_${SLURM_ARRAY_JOB_ID}_${SLURM_ARRAY_TASK_ID}.out"'',
      ''exec 2> "$OUTPUT_DIR/${JOB_NAME}_${SLURM_ARRAY_JOB_ID}_${SLURM_ARRAY_TASK_ID}.err"'',
      '' '']\<close>

text \<open>
  The directive lines rendered from \<open>params\<close>: every entry but those under the keys
  \<open>output\<close> and \<open>error\<close>.
\<close>

definition array_directives :: "SlurmQueueConf \<Rightarrow> nat \<Rightarrow> string list" where
  "array_directives config array_size =
     map (\<lambda>(k, v). as_sbatch_flag k v)
       (filter (\<lambda>(k, v). k \<notin> set [''output'', ''error'']) (array_params config array_size))"

text \<open>
  The list \<open>lines\<close> of \<open>generate_array_script\<close>. \<open>argv0\<close> is
  \<open>to_absolute_path(sys.argv[0])\<close>, the entry point of the running program.
\<close>

definition array_script_lines ::
  "SlurmQueueConf \<Rightarrow> pyval \<Rightarrow> nat \<Rightarrow> string \<Rightarrow> string \<Rightarrow> string list" where
  "array_script_lines config array_name array_size config_file argv0 =
     [''#!/bin/bash'', '' '', ''# SLURM parameters'']
     @ [''#SBATCH --job-name='' @ py_str array_name]
     @ [''#SBATCH --output=/dev/null'']
     @ [''#SBATCH --error=/dev/null'']
     @ array_directives config array_size
     @ runtime_lines config_file
     @ (if setup_cmds config \<noteq> [] then ['' '', ''# Setup commands''] @ setup_cmds config else [])
     @ ['' '', ''# Run the command'', ''python '' @ argv0 @ '' hydra.launcher=basic $OVERRIDES'']"

definition generate_array_script ::
  "SlurmQueueConf \<Rightarrow> pyval \<Rightarrow> nat \<Rightarrow> string \<Rightarrow> string \<Rightarrow> string \<Rightarrow> filesystem
     \<Rightarrow> (pyerr + string) \<times> filesystem" where
  "generate_array_script config array_name array_size config_file sweep_dir argv0 fs =
     (let script = str_join [CHR 0x0A]
                     (array_script_lines config array_name array_size config_file argv0);
          script_path = os_path_join sweep_dir (py_str array_name @ ''_array.sh'')
      in case write_file fs script_path (Text script) of
           Inl e \<Rightarrow> (Inl e, fs)
         | Inr fs' \<Rightarrow> (Inr script_path, fs'))"

subsection \<open>Single-job mode\<close>

definition non_slurm_single :: "string list" where
  "non_slurm_single = [''additional'', ''setup'', ''_target_'', ''job_array_name'']"

definition slurm_params :: "SlurmQueueConf \<Rightarrow> string \<Rightarrow> (string \<times> pyval) list" where
  "slurm_params config output_dir =
     (let paths = [(''output'', VStr (output_dir @ ''/'' @ py_str (job_name config) @ ''_%j.out'')),
                   (''error'', VStr (output_dir @ ''/'' @ py_str (job_name config) @ ''_%j.err''))];
          params = filter (\<lambda>(k, v). v \<noteq> VNone \<and> k \<notin> set non_slurm_single) (vars config);
          params = dict_update params paths
      in if additional config \<noteq> [] then dict_update params (additional config) else params)"

definition slurm_script_lines :: "SlurmQueueConf \<Rightarrow> string \<Rightarrow> string \<Rightarrow> string list" where
  "slurm_script_lines config output_dir command =
     [''#!/bin/bash'', '' '', ''# SLURM parameters'']
     @ map (\<lambda>(k, v). as_sbatch_flag k v) (slurm_params config output_dir)
     @ (if setup_cmds config \<noteq> [] then ['' '', ''# Setup commands''] @ setup_cmds config else [])
     @ ['' '', ''# Run the command'', command]"

text \<open>
  \<open>generate_slurm_script\<close> assigns to \<open>config.job_name\<close>, an attribute of the caller's
  object, so the object is part of the state: the function returns the object as it
  leaves it. \<open>name\<close> is the parameter \<open>job_name\<close>. When writing the script raises, the
  statement that restores the attribute is not reached.
\<close>

definition generate_slurm_script ::
  "SlurmQueueConf \<Rightarrow> string \<Rightarrow> string \<Rightarrow> string \<Rightarrow> filesystem
     \<Rightarrow> (pyerr + string) \<times> SlurmQueueConf \<times> filesystem" where
  "generate_slurm_script config name output_dir command fs =
     (let original_config_job_name = job_name config;
          config = (if job_name config = VNone then config\<lparr>job_name := VStr name\<rparr> else config);
          script = str_join [CHR 0x0A] (slurm_script_lines config output_dir command);
          script_path = os_path_join output_dir (name @ ''.sh'')
      in case write_file fs script_path (Text script) of
           Inl e \<Rightarrow> (Inl e, config, fs)
         | Inr fs' \<Rightarrow> (Inr script_path, config\<lparr>job_name := original_config_job_name\<rparr>, fs'))"

section \<open>The submission client and the array dispatch engine\<close>

text \<open>\<open>JobReturn\<close> and \<open>JobStatus\<close> of the host framework, as far as the launcher sets them.
  The return value is None or the dict \<open>{"job_id": j}\<close>, where \<open>j\<close> is a string or None.\<close>

datatype JobStatus = UNKNOWN | COMPLETED | FAILED

datatype retval = PyNone | JobIdDict "string option"

record JobReturn =
  status :: JobStatus
  return_value :: retval

definition job_id_of :: "JobReturn \<Rightarrow> string option" where
  "job_id_of r = (case return_value r of PyNone \<Rightarrow> None | JobIdDict j \<Rightarrow> j)"

text \<open>
  What running \<open>sbatch\<close> does: the process runs to its end with a return code and its
  standard output as text; or it cannot be started (the binary is not on the path, or may
  not be executed) and \<open>subprocess.run\<close> raises \<open>OSError\<close>; or it runs to its end but
  its output is not text in the encoding of the locale, and reading it with \<open>text=True\<close>
  raises \<open>UnicodeDecodeError\<close> before the return code is looked at. The source passes no
  timeout, so \<open>subprocess.run\<close> never raises \<open>TimeoutExpired\<close>.
\<close>

datatype proc_outcome = Exited int string | NotStarted | Undecodable

text \<open>\<open>subprocess.run(["sbatch", script], check=True, stdout=PIPE, text=True)\<close>: with
  \<open>check=True\<close> a return code other than zero raises \<open>CalledProcessError\<close>.\<close>

fun subprocess_run_check :: "proc_outcome \<Rightarrow> pyerr + (int \<times> string)" where
  "subprocess_run_check (Exited returncode out) =
     (if returncode \<noteq> 0 then Inl (CalledProcessError returncode) else Inr (returncode, out))"
| "subprocess_run_check NotStarted = Inl (OSError ''sbatch'')"
| "subprocess_run_check Undecodable = Inl UnicodeDecodeError"

text \<open>
  The loop over the lines of the acknowledgment: each line that contains the marker
  overwrites the job id with the last token of the line. Indexing the token list with
  \<open>[-1]\<close> raises \<open>IndexError\<close> on an empty list.
\<close>

fun scan_job_id :: "string list \<Rightarrow> string option \<Rightarrow> pyerr + string option" where
  "scan_job_id [] job_id = Inr job_id"
| "scan_job_id (line # rest) job_id =
     (if str_in ''Submitted batch job'' line
      then (case split_ws (strip line) of
              [] \<Rightarrow> Inl IndexError
            | t # ts \<Rightarrow> scan_job_id rest (Some (last (t # ts))))
      else scan_job_id rest job_id)"

definition extract_job_id :: "string \<Rightarrow> pyerr + string option" where
  "extract_job_id out = scan_job_id (splitlines out) None"

text \<open>\<open>f"{array_job_id}_{i}" if array_job_id else None\<close>: None and the empty string are
  false.\<close>

definition derived_id :: "string option \<Rightarrow> nat \<Rightarrow> string option" where
  "derived_id array_job_id i =
     (case array_job_id of
        None \<Rightarrow> None
      | Some j \<Rightarrow> if j \<noteq> [] then Some (j @ ''_'' @ str_int (int i)) else None)"

text \<open>\<open>filter_overrides\<close> of the host framework drops the overrides that start with
  \<open>hydra.\<close>.\<close>

definition filter_overrides :: "string list \<Rightarrow> string list" where
  "filter_overrides overrides = filter (\<lambda>x. \<not> startswith x ''hydra.'') overrides"

text \<open>The records of the descriptor store: \<open>zip\<close> stops at the shortest of the three
  lists, \<open>enumerate\<close> numbers what it yields from zero.\<close>

definition config_data ::
  "string list list \<Rightarrow> string list \<Rightarrow> string list \<Rightarrow> (string \<times> pyval) list list" where
  "config_data all_overrides job_names output_dirs =
     map (\<lambda>(idx, overrides, name, output_dir).
            [(''overrides'', VStr (str_join '' '' (filter_overrides overrides))),
             (''job_name'', VStr name),
             (''output_dir'', VStr output_dir),
             (''task_id'', VInt (int idx))])
         (enumerate 0 (zip all_overrides (zip job_names output_dirs)))"

text \<open>The body of the \<open>try\<close> statement of \<open>submit_job_array\<close>.\<close>

definition array_try_body :: "proc_outcome \<Rightarrow> nat \<Rightarrow> pyerr + JobReturn list" where
  "array_try_body run array_size =
     (case subprocess_run_check run of
        Inl e \<Rightarrow> Inl e
      | Inr (returncode, out) \<Rightarrow>
          (case extract_job_id out of
             Inl e \<Rightarrow> Inl e
           | Inr array_job_id \<Rightarrow>
               Inr (map (\<lambda>i. \<lparr>status = COMPLETED,
                              return_value = JobIdDict (derived_id array_job_id i)\<rparr>)
                        [0..<array_size])))"

text \<open>
  \<open>submit_job_array\<close>. \<open>run\<close> is what the one invocation of \<open>sbatch\<close> does; the
  mode 493 is octal 755. The handler
  \<open>except subprocess.CalledProcessError\<close> takes that exception class only; any other
  exception of the body leaves the function.
\<close>

definition submit_job_array ::
  "SlurmQueueConf \<Rightarrow> string list list \<Rightarrow> string list \<Rightarrow> string list \<Rightarrow> string \<Rightarrow> string
     \<Rightarrow> proc_outcome \<Rightarrow> filesystem \<Rightarrow> (pyerr + JobReturn list) \<times> filesystem" where
  "submit_job_array config all_overrides job_names output_dirs sweep_dir argv0 run fs =
     (let array_name = job_array_name config;
          array_config_file = os_path_join sweep_dir (py_str array_name @ ''_array_config.json'')
      in case write_file fs array_config_file
                (JsonDump (config_data all_overrides job_names output_dirs)) of
           Inl e \<Rightarrow> (Inl e, fs)
         | Inr fs1 \<Rightarrow>
             let array_size = length all_overrides in
             (case generate_array_script config array_name array_size array_config_file
                     sweep_dir argv0 fs1 of
                (Inl e, fs2) \<Rightarrow> (Inl e, fs2)
              | (Inr array_script, fs2) \<Rightarrow>
                  (case os_chmod fs2 array_script 493 of
                     Inl e \<Rightarrow> (Inl e, fs2)
                   | Inr fs3 \<Rightarrow>
                       (case array_try_body run array_size of
                          Inr returns \<Rightarrow> (Inr returns, fs3)
                        | Inl (CalledProcessError rc) \<Rightarrow>
                            (Inr (map (\<lambda>i. \<lparr>status = FAILED, return_value = PyNone\<rparr>)
                                      [0..<array_size]), fs3)
                        | Inl e \<Rightarrow> (Inl e, fs3)))))"

section \<open>The single-job path\<close>

definition build_command :: "string \<Rightarrow> string list \<Rightarrow> string" where
  "build_command argv0 overrides =
     (let overrides = filter_overrides overrides;
          command = ''python '' @ argv0 @ '' hydra.launcher=basic''
      in if overrides \<noteq> [] then command @ '' '' @ str_join '' '' overrides else command)"

text \<open>
  \<open>submit_job\<close>. The call of \<open>subprocess.run\<close> has \<open>check=True\<close> and stands in no
  \<open>try\<close> statement. The branch for a return code other than zero is written out as the
  source has it.
\<close>

definition submit_job ::
  "SlurmQueueConf \<Rightarrow> string list \<Rightarrow> string \<Rightarrow> string \<Rightarrow> string \<Rightarrow> proc_outcome \<Rightarrow> filesystem
     \<Rightarrow> (pyerr + JobReturn) \<times> SlurmQueueConf \<times> filesystem" where
  "submit_job config overrides name output_dir argv0 run fs =
     (let cmd = build_command argv0 overrides in
      case generate_slurm_script config name output_dir cmd fs of
        (Inl e, config', fs') \<Rightarrow> (Inl e, config', fs')
      | (Inr script_path, config', fs') \<Rightarrow>
          (case subprocess_run_check run of
             Inl e \<Rightarrow> (Inl e, config', fs')
           | Inr (returncode, out) \<Rightarrow>
               if returncode = 0 then
                 (case extract_job_id out of
                    Inl e \<Rightarrow> (Inl e, config', fs')
                  | Inr job_id \<Rightarrow>
                      (Inr \<lparr>status = COMPLETED,
                            return_value = (if job_id \<noteq> None \<and> job_id \<noteq> Some []
                                            then JobIdDict job_id else PyNone)\<rparr>,
                       config', fs'))
               else (Inr \<lparr>status = FAILED, return_value = PyNone\<rparr>, config', fs')))"

section \<open>Construction before use\<close>

text \<open>
  The launcher builds its configuration object in \<open>SlurmLauncher.__init__\<close> and hands it
  to \<open>submit_job\<close> or \<open>submit_job_array\<close> only later, in \<open>launch\<close>. \<open>construct_then\<close>
  is that sequence for any such use \<open>launch\<close>: an exception of the constructor ends the
  program before \<open>launch\<close> runs.
\<close>

definition construct_then ::
  "SlurmQueueConf \<Rightarrow> (SlurmQueueConf \<Rightarrow> filesystem \<Rightarrow> 'r \<times> filesystem) \<Rightarrow> filesystem
     \<Rightarrow> (pyerr + 'r) \<times> filesystem" where
  "construct_then kwargs launch fs =
     (case post_init kwargs of
        Inl e \<Rightarrow> (Inl e, fs)
      | Inr config \<Rightarrow> (case launch config fs of (r, fs') \<Rightarrow> (Inr r, fs')))"

section \<open>Paths and sample inputs\<close>

text \<open>The two paths \<open>submit_job_array\<close> writes to: the descriptor store and the array
  script, both in the sweep directory and named after \<open>job_array_name\<close>.\<close>

definition array_config_file :: "SlurmQueueConf \<Rightarrow> string \<Rightarrow> string" where
  "array_config_file config sweep_dir =
     os_path_join sweep_dir (py_str (job_array_name config) @ ''_array_config.json'')"

definition array_script_path :: "SlurmQueueConf \<Rightarrow> string \<Rightarrow> string" where
  "array_script_path config sweep_dir =
     os_path_join sweep_dir (py_str (job_array_name config) @ ''_array.sh'')"

text \<open>A file system with no file where every path can be written, and a configuration
  that asks for a job array.\<close>

definition empty_fs :: filesystem where
  "empty_fs = \<lparr>files = Map.empty, modes = Map.empty, unwritable = (\<lambda>p. False)\<rparr>"

definition array_conf :: SlurmQueueConf where
  "array_conf = default_conf\<lparr>job_array_name := VStr ''sweep''\<rparr>"

text \<open>The path \<open>generate_slurm_script\<close> writes to, and the object as it stands between
  the assignment to \<open>config.job_name\<close> and the statement that restores it.\<close>

definition slurm_script_path :: "string \<Rightarrow> string \<Rightarrow> string" where
  "slurm_script_path output_dir name = os_path_join output_dir (name @ ''.sh'')"

definition with_job_name :: "SlurmQueueConf \<Rightarrow> string \<Rightarrow> SlurmQueueConf" where
  "with_job_name config name =
     (if job_name config = VNone then config\<lparr>job_name := VStr name\<rparr> else config)"

text \<open>Further sample configurations: one whose \<open>additional\<close> dict sets \<open>array\<close>; the
  constructor arguments with a GPU count and the object the constructor makes of them; one
  with a field that holds False and an \<open>additional\<close> dict that sets \<open>output\<close>.\<close>

definition throttled_conf :: SlurmQueueConf where
  "throttled_conf = default_conf\<lparr>job_array_name := VStr ''sweep'', additional := [(''array'', VStr ''0-9%2'')]\<rparr>"

definition gpu_kwargs :: SlurmQueueConf where
  "gpu_kwargs = default_conf\<lparr>job_array_name := VStr ''sweep'', gpus := VInt 2\<rparr>"

definition gpu_conf :: SlurmQueueConf where
  "gpu_conf = default_conf\<lparr>job_array_name := VStr ''sweep'', gres := VStr ''gpu:2'', gpus := VInt 2\<rparr>"

definition flag_conf :: SlurmQueueConf where
  "flag_conf = default_conf\<lparr>job_array_name := VStr ''sweep'', nodes := VBool False,
                              additional := [(''output'', VStr ''/tmp/log'')]\<rparr>"

section \<open>Lemmas\<close>

subsection \<open>The acknowledgment scan never fails and yields non-empty ids\<close>

lemma startswith_set: "startswith s p \<Longrightarrow> set p \<subseteq> set s"
  by (induction s p rule: startswith.induct) auto

lemma str_in_set: "str_in sub s \<Longrightarrow> set sub \<subseteq> set s"
proof (induction s)
  case Nil then show ?case by simp
next
  case (Cons c cs)
  from Cons.prems have "startswith (c # cs) sub \<or> str_in sub cs" by simp
  then show ?case
  proof
    assume "startswith (c # cs) sub" then show ?thesis by (rule startswith_set)
  next
    assume "str_in sub cs" then show ?thesis using Cons.IH by auto
  qed
qed

lemma dropWhile_keeps: "c \<in> set s \<Longrightarrow> \<not> P c \<Longrightarrow> c \<in> set (dropWhile P s)"
  by (induction s) auto

lemma strip_keeps: "c \<in> set s \<Longrightarrow> \<not> isspace c \<Longrightarrow> c \<in> set (strip s)"
  unfolding strip_def by (simp add: dropWhile_keeps)

lemma split_from_tokens_nonempty: "t \<in> set (split_from cur s) \<Longrightarrow> t \<noteq> []"
  by (induction s arbitrary: cur) (auto split: if_splits)

lemma split_from_not_Nil: "cur \<noteq> [] \<or> (\<exists>c\<in>set s. \<not> isspace c) \<Longrightarrow> split_from cur s \<noteq> []"
  by (induction s arbitrary: cur) auto

lemma marker_line_has_token:
  assumes "str_in ''Submitted batch job'' line"
  shows "split_ws (strip line) \<noteq> []"
proof -
  have "CHR ''S'' \<in> set line" using str_in_set[OF assms] by auto
  moreover have "\<not> isspace CHR ''S''" by (simp add: isspace_def whitespace_def)
  ultimately have "CHR ''S'' \<in> set (strip line)" by (rule strip_keeps)
  then show ?thesis unfolding split_ws_def
    using \<open>\<not> isspace CHR ''S''\<close> split_from_not_Nil[of "[]" "strip line"] by blast
qed

lemma scan_job_id_total: "\<exists>j. scan_job_id ls acc = Inr j"
  by (induction ls arbitrary: acc) (auto split: list.splits dest: marker_line_has_token)

lemma scan_job_id_nonempty:
  "scan_job_id ls acc = Inr (Some J) \<Longrightarrow> acc \<noteq> Some [] \<Longrightarrow> J \<noteq> []"
proof (induction ls arbitrary: acc)
  case Nil then show ?case by auto
next
  case (Cons l ls)
  show ?case
  proof (cases "str_in ''Submitted batch job'' l")
    case False
    with Cons show ?thesis by auto
  next
    case True
    then obtain t ts where ts: "split_ws (strip l) = t # ts"
      using marker_line_has_token by (cases "split_ws (strip l)") auto
    have "last (t # ts) \<in> set (split_from [] (strip l))"
      using ts unfolding split_ws_def by (metis last_in_set list.distinct(1))
    then have "last (t # ts) \<noteq> []" by (rule split_from_tokens_nonempty)
    with Cons.IH[of "Some (last (t # ts))"] Cons.prems True ts show ?thesis by auto
  qed
qed

lemma extract_job_id_total: "\<exists>j. extract_job_id out = Inr j"
  unfolding extract_job_id_def by (rule scan_job_id_total)

lemma extract_job_id_nonempty: "extract_job_id out = Inr (Some J) \<Longrightarrow> J \<noteq> []"
  unfolding extract_job_id_def by (erule scan_job_id_nonempty) simp

subsection \<open>\<open>submit_job_array\<close> when both files can be written\<close>

lemma map_const_upt: "map (\<lambda>i. c) [0..<n] = replicate n c"
  by (induction n) (auto simp: replicate_append_same)

lemma submit_job_array_unfold:
  assumes "\<not> unwritable fs (array_config_file config sweep_dir)"
      and "\<not> unwritable fs (array_script_path config sweep_dir)"
  shows "submit_job_array config all_overrides job_names output_dirs sweep_dir argv0 run fs =
    ((case array_try_body run (length all_overrides) of
        Inr returns \<Rightarrow> Inr returns
      | Inl (CalledProcessError rc) \<Rightarrow>
          Inr (replicate (length all_overrides) \<lparr>status = FAILED, return_value = PyNone\<rparr>)
      | Inl e \<Rightarrow> Inl e),
     fs\<lparr>files := (files fs)
          (array_config_file config sweep_dir \<mapsto>
             JsonDump (config_data all_overrides job_names output_dirs),
           array_script_path config sweep_dir \<mapsto>
             Text (str_join [CHR 0x0A]
                    (array_script_lines config (job_array_name config) (length all_overrides)
                       (array_config_file config sweep_dir) argv0))),
         modes := (modes fs)(array_script_path config sweep_dir \<mapsto> 493)\<rparr>)"
  using assms
  unfolding submit_job_array_def generate_array_script_def write_file_def os_chmod_def
    array_config_file_def array_script_path_def
  by (simp add: Let_def map_const_upt split: sum.splits pyerr.splits)

lemma array_try_body_Exited:
  "array_try_body (Exited rc out) n =
     (if rc \<noteq> 0 then Inl (CalledProcessError rc)
      else case extract_job_id out of Inl e \<Rightarrow> Inl e
           | Inr j \<Rightarrow> Inr (map (\<lambda>i. \<lparr>status = COMPLETED, return_value = JobIdDict (derived_id j i)\<rparr>) [0..<n]))"
  by (simp add: array_try_body_def)

lemma array_try_body_NotStarted: "array_try_body NotStarted n = Inl (OSError ''sbatch'')"
  by (simp add: array_try_body_def)

lemma array_try_body_Undecodable: "array_try_body Undecodable n = Inl UnicodeDecodeError"
  by (simp add: array_try_body_def)

lemma array_paths_differ: "array_config_file config sweep_dir \<noteq> array_script_path config sweep_dir"
proof -
  have "startswith (n @ ''_array_config.json'') ''/'' = startswith (n @ ''_array.sh'') ''/''" for n
    by (cases n) simp_all
  then show ?thesis
    unfolding array_config_file_def array_script_path_def os_path_join_def by simp
qed

lemma length_config_data:
  "length (config_data all_overrides job_names output_dirs)
     = min (length all_overrides) (min (length job_names) (length output_dirs))"
  by (simp add: config_data_def)

lemma config_data_nth:
  assumes "i < length all_overrides" and "i < length job_names" and "i < length output_dirs"
  shows "config_data all_overrides job_names output_dirs ! i
           = [(''overrides'', VStr (str_join '' '' (filter_overrides (all_overrides ! i)))),
              (''job_name'', VStr (job_names ! i)),
              (''output_dir'', VStr (output_dirs ! i)),
              (''task_id'', VInt (int i))]"
  using assms by (simp add: config_data_def nth_enumerate_eq)

subsection \<open>Concrete evaluations\<close>

lemma upt_3: "[0..<3] = [0, 1, 2]"
  by (simp add: upt_rec)

lemma extract_555: "extract_job_id ''Submitted batch job 555'' = Inr (Some ''555'')"
  by (simp add: extract_job_id_def splitlines_def strip_def split_ws_def isspace_def whitespace_def linebreaks_def)

lemma str_int_digits:
  "str_int 0 = ''0''" "str_int 1 = ''1''" "str_int 2 = ''2''"
  by (simp_all add: str_int_def str_nat.simps digit_char_def)

lemma list3_eqI:
  assumes "length xs = 3" and "xs ! 0 = a" and "xs ! 1 = b" and "xs ! 2 = c"
  shows "xs = [a, b, c]"
proof -
  from assms(1) obtain x y z where "xs = [x, y, z]"
    by (cases xs; cases "tl xs"; cases "tl (tl xs)") auto
  with assms show ?thesis by simp
qed

subsection \<open>The single-job script\<close>

lemma generate_slurm_script_unfold:
  "generate_slurm_script config name output_dir command fs =
     (if unwritable fs (slurm_script_path output_dir name)
      then (Inl (OSError (slurm_script_path output_dir name)), with_job_name config name, fs)
      else (Inr (slurm_script_path output_dir name), config,
            fs\<lparr>files := (files fs)(slurm_script_path output_dir name \<mapsto>
                   Text (str_join [CHR 0x0A]
                           (slurm_script_lines (with_job_name config name) output_dir command)))\<rparr>))"
  unfolding generate_slurm_script_def write_file_def slurm_script_path_def with_job_name_def
  by (simp add: Let_def)

lemma submit_job_nonzero_exit:
  assumes "returncode \<noteq> 0"
  shows "fst (submit_job config overrides name output_dir prog (Exited returncode out) fs)
           = (if unwritable fs (slurm_script_path output_dir name)
              then Inl (OSError (slurm_script_path output_dir name))
              else Inl (CalledProcessError returncode))"
  using assms by (simp add: submit_job_def generate_slurm_script_unfold)

lemma slurm_lines_default:
 "slurm_script_lines (with_job_name default_conf ''job'') ''/s/0'' ''run'' =
   [''#!/bin/bash'', '' '', ''# SLURM parameters'',
  ''#SBATCH --partition=default'', ''#SBATCH --job-name=job'',
  ''#SBATCH --output=/s/0/job_%j.out'', ''#SBATCH --error=/s/0/job_%j.err'',
  '' '', ''# Run the command'', ''run'']"
  by (simp add: slurm_script_lines_def with_job_name_def default_conf_def slurm_params_def vars_def non_slurm_single_def
     as_sbatch_flag_def replace_char_def shlex_quote_def shlex_safe_def)

subsection \<open>Entries of an updated dict\<close>

lemma dict_set_has: "(k, v) \<in> set (dict_set d k v)"
  by (induction d) auto

lemma dict_set_keeps: "(k, v) \<in> set d \<Longrightarrow> k \<noteq> k' \<Longrightarrow> (k, v) \<in> set (dict_set d k' v')"
  by (induction d) auto

lemma dict_set_from: "(k, v) \<in> set (dict_set d k' v') \<Longrightarrow> (k, v) \<in> set d \<or> (k, v) = (k', v')"
  by (induction d) (auto split: if_splits)

lemma dict_update_keeps:
  "(k, v) \<in> set d \<Longrightarrow> k \<notin> fst ` set e \<Longrightarrow> (k, v) \<in> set (dict_update d e)"
  by (induction d e rule: dict_update.induct) (auto simp: dict_set_keeps)

lemma dict_update_from:
  "(k, v) \<in> set (dict_update d e) \<Longrightarrow> (k, v) \<in> set d \<or> (k, v) \<in> set e"
  by (induction d e rule: dict_update.induct) (auto dest: dict_set_from)

lemma vars_keys:
  "fst ` set (vars c) = set [''_target_'', ''partition'', ''job_name'', ''job_array_name'', ''nodes'',
     ''ntasks'', ''ntasks_per_node'', ''cpus_per_task'', ''mem'', ''time'', ''gres'', ''gpus'',
     ''account'', ''qos'', ''begin'', ''mail_type'', ''mail_user'']"
  by (simp add: vars_def)

lemma vars_key_not_path:
  assumes "(k, v) \<in> set (vars c)"
  shows "k \<noteq> ''array''" and "k \<noteq> ''output''" and "k \<noteq> ''error''"
proof -
  from assms have "k \<in> fst ` set (vars c)" by force
  then have k: "k \<in> set [''_target_'', ''partition'', ''job_name'', ''job_array_name'', ''nodes'',
     ''ntasks'', ''ntasks_per_node'', ''cpus_per_task'', ''mem'', ''time'', ''gres'', ''gpus'',
     ''account'', ''qos'', ''begin'', ''mail_type'', ''mail_user'']"
    by (simp only: vars_keys)
  from k show "k \<noteq> ''array''" by auto
  from k show "k \<noteq> ''output''" by auto
  from k show "k \<noteq> ''error''" by auto
qed

subsection \<open>The directives of the array script\<close>

lemma array_params_eq:
  "array_params config n =
     dict_update (dict_set (filter (\<lambda>(k, v). v \<noteq> VNone \<and> k \<notin> set non_slurm_array) (vars config))
                    ''array'' (VStr (''0-'' @ str_int (int n - 1))))
       (additional config)"
  by (simp add: array_params_def Let_def)

lemma array_params_field:
  assumes "(k, v) \<in> set (vars config)" and "k \<notin> set non_slurm_array"
      and "k \<notin> fst ` set (additional config)"
  shows "(k, v) \<in> set (array_params config n) \<longleftrightarrow> v \<noteq> VNone"
proof
  assume in_params: "(k, v) \<in> set (array_params config n)"
  show "v \<noteq> VNone"
  proof
    assume "v = VNone"
    from in_params have "(k, v) \<in> set (dict_set (filter (\<lambda>(k, v). v \<noteq> VNone \<and> k \<notin> set non_slurm_array) (vars config))
                    ''array'' (VStr (''0-'' @ str_int (int n - 1)))) \<or> (k, v) \<in> set (additional config)"
      unfolding array_params_eq by (rule dict_update_from)
    with assms(3) have "(k, v) \<in> set (dict_set (filter (\<lambda>(k, v). v \<noteq> VNone \<and> k \<notin> set non_slurm_array) (vars config))
                    ''array'' (VStr (''0-'' @ str_int (int n - 1))))"
      by force
    then have "(k, v) \<in> set (filter (\<lambda>(k, v). v \<noteq> VNone \<and> k \<notin> set non_slurm_array) (vars config))
               \<or> (k, v) = (''array'', VStr (''0-'' @ str_int (int n - 1)))"
      by (rule dict_set_from)
    with \<open>v = VNone\<close> show False by auto
  qed
next
  assume "v \<noteq> VNone"
  with assms(1,2) have "(k, v) \<in> set (filter (\<lambda>(k, v). v \<noteq> VNone \<and> k \<notin> set non_slurm_array) (vars config))"
    by simp
  then have "(k, v) \<in> set (dict_set (filter (\<lambda>(k, v). v \<noteq> VNone \<and> k \<notin> set non_slurm_array) (vars config))
                    ''array'' (VStr (''0-'' @ str_int (int n - 1))))"
    using vars_key_not_path(1)[OF assms(1)] by (rule dict_set_keeps)
  then show "(k, v) \<in> set (array_params config n)"
    unfolding array_params_eq using assms(3) by (rule dict_update_keeps)
qed

lemma array_directive_of_param:
  assumes "(k, v) \<in> set (array_params config n)" and "k \<noteq> ''output''" and "k \<noteq> ''error''"
  shows "as_sbatch_flag k v \<in> set (array_directives config n)"
proof -
  from assms have "(k, v) \<in> set (filter (\<lambda>(k, v). k \<notin> set [''output'', ''error'']) (array_params config n))"
    by simp
  then have "(\<lambda>(k, v). as_sbatch_flag k v) (k, v) \<in> set (array_directives config n)"
    unfolding array_directives_def set_map by (rule imageI)
  then show ?thesis by simp
qed

lemma array_directive_in_script:
  "l \<in> set (array_directives config n) \<Longrightarrow>
   l \<in> set (array_script_lines config array_name n config_file prog)"
  by (simp add: array_script_lines_def)

subsection \<open>The directives of the single-job script\<close>

lemma slurm_params_eq:
  "slurm_params config output_dir =
     dict_update
       (dict_set (dict_set (filter (\<lambda>(k, v). v \<noteq> VNone \<and> k \<notin> set non_slurm_single) (vars config))
            ''output'' (VStr (output_dir @ ''/'' @ py_str (job_name config) @ ''_%j.out'')))
          ''error'' (VStr (output_dir @ ''/'' @ py_str (job_name config) @ ''_%j.err'')))
       (additional config)"
  by (simp add: slurm_params_def Let_def)

lemma slurm_directive_of_field:
  assumes "(k, v) \<in> set (vars config)" and "v \<noteq> VNone" and "k \<notin> set non_slurm_single"
      and "k \<notin> fst ` set (additional config)"
  shows "as_sbatch_flag k v \<in> set (slurm_script_lines config output_dir command)"
proof -
  from assms(1-3) have "(k, v) \<in> set (filter (\<lambda>(k, v). v \<noteq> VNone \<and> k \<notin> set non_slurm_single) (vars config))"
    by simp
  then have "(k, v) \<in> set (slurm_params config output_dir)"
    unfolding slurm_params_eq
    using vars_key_not_path(2,3)[OF assms(1)] assms(4)
    by (intro dict_update_keeps dict_set_keeps)
  then have "(\<lambda>(k, v). as_sbatch_flag k v) (k, v)
               \<in> set (map (\<lambda>(k, v). as_sbatch_flag k v) (slurm_params config output_dir))"
    unfolding set_map by (rule imageI)
  then show ?thesis by (simp add: slurm_script_lines_def)
qed

subsection \<open>Decimal digits need no quoting\<close>

lemma digit_char_safe: "d < 10 \<Longrightarrow> digit_char d \<in> set shlex_safe"
proof -
  assume "d < 10"
  then have "digit_char d \<in> set ''0123456789''"
    unfolding digit_char_def by (intro nth_mem) simp
  then show ?thesis unfolding shlex_safe_def by auto
qed

lemma str_nat_safe: "list_all (\<lambda>c. c \<in> set shlex_safe) (str_nat n)"
proof (induction n rule: str_nat.induct)
  case (1 n)
  show ?case
  proof (cases "n < 10")
    case True
    then show ?thesis by (subst str_nat.simps) (simp add: digit_char_safe)
  next
    case False
    with 1 show ?thesis by (subst str_nat.simps) (simp add: digit_char_safe)
  qed
qed

lemma str_nat_nonempty: "str_nat n \<noteq> []"
  by (subst str_nat.simps) simp

lemma array_range_flag:
  assumes "1 \<le> n"
  shows "as_sbatch_flag ''array'' (VStr (''0-'' @ str_int (int n - 1)))
           = ''#SBATCH --array=0-'' @ str_nat (n - 1)"
proof -
  from assms have "str_int (int n - 1) = str_nat (n - 1)"
    by (simp add: str_int_def nat_diff_distrib')
  moreover have "list_all (\<lambda>c. c \<in> set shlex_safe) (''0-'' @ str_nat (n - 1))"
    using str_nat_safe[of "n - 1"] by (simp add: shlex_safe_def)
  ultimately show ?thesis
    by (simp add: as_sbatch_flag_def replace_char_def shlex_quote_def)
qed

subsection \<open>The sample configurations, evaluated\<close>

lemma throttled_params: "array_params throttled_conf 3 = [(''partition'', VStr ''default''), (''array'', VStr ''0-9%2'')]"
  by (simp add: array_params_def throttled_conf_def default_conf_def vars_def non_slurm_array_def)

lemma throttled_directives: "array_directives throttled_conf 3 = [''#SBATCH --partition=default'', ''#SBATCH --array=0-9%2'']"
  by (simp add: array_directives_def throttled_params as_sbatch_flag_def replace_char_def shlex_quote_def shlex_safe_def)

lemma post_init_gpu_kwargs: "post_init gpu_kwargs = Inr gpu_conf"
  by (simp add: post_init_def gpu_kwargs_def gpu_conf_def default_conf_def str_int_digits)

lemma gpu_conf_directives:
  "array_directives gpu_conf 3
     = [''#SBATCH --partition=default'', ''#SBATCH --gres=gpu:2'', ''#SBATCH --gpus=2'',
        ''#SBATCH --array=0-2'']"
  by (simp add: array_directives_def array_params_def gpu_conf_def default_conf_def vars_def
        non_slurm_array_def as_sbatch_flag_def replace_char_def shlex_quote_def shlex_safe_def
        str_int_def str_nat.simps digit_char_def)

lemma gpu_conf_single:
  "slurm_script_lines (with_job_name gpu_conf ''job'') ''/s/0'' ''run''
     = [''#!/bin/bash'', '' '', ''# SLURM parameters'',
        ''#SBATCH --partition=default'', ''#SBATCH --job-name=job'', ''#SBATCH --gres=gpu:2'',
        ''#SBATCH --gpus=2'', ''#SBATCH --output=/s/0/job_%j.out'',
        ''#SBATCH --error=/s/0/job_%j.err'', '' '', ''# Run the command'', ''run'']"
  by (simp add: slurm_script_lines_def slurm_params_def with_job_name_def gpu_conf_def
        default_conf_def vars_def non_slurm_single_def as_sbatch_flag_def replace_char_def
        shlex_quote_def shlex_safe_def str_int_def str_nat.simps digit_char_def)

lemma post_init_gpus:
  assumes "post_init kwargs = Inr config" and "gpus kwargs \<noteq> VNone"
  shows "config = kwargs\<lparr>gres := VStr (''gpu:'' @ py_str (gpus kwargs))\<rparr>"
  using assms by (auto simp: post_init_def Let_def split: if_splits)

subsection \<open>Entries under \<open>output\<close> and \<open>error\<close> do not reach the array script\<close>

lemma filter_dict_set:
  "filter (\<lambda>(k, v). P k) (dict_set d k v)
     = (if P k then dict_set (filter (\<lambda>(k, v). P k) d) k v else filter (\<lambda>(k, v). P k) d)"
  by (induction d) auto

lemma filter_dict_update:
  "filter (\<lambda>(k, v). P k) (dict_update d e)
     = dict_update (filter (\<lambda>(k, v). P k) d) (filter (\<lambda>(k, v). P k) e)"
  by (induction d e rule: dict_update.induct) (auto simp: filter_dict_set)

lemma vars_additional: "vars (config\<lparr>additional := a\<rparr>) = vars config"
  by (simp add: vars_def)

lemma array_directives_eq:
  "array_directives config n
     = map (\<lambda>(k, v). as_sbatch_flag k v)
         (filter (\<lambda>(k, v). k \<noteq> ''output'' \<and> k \<noteq> ''error'') (array_params config n))"
  by (simp add: array_directives_def)

lemma array_directives_ignore_output_error:
  "array_directives (config\<lparr>additional := filter (\<lambda>(k, v). k \<noteq> ''output'' \<and> k \<noteq> ''error'')
                                              (additional config)\<rparr>) n
     = array_directives config n"
proof -
  let ?keep = "\<lambda>(k, v::pyval). k \<noteq> ''output'' \<and> k \<noteq> ''error''"
  have idem: "filter ?keep (filter ?keep xs) = filter ?keep xs" for xs
    by simp
  show ?thesis
    unfolding array_directives_eq array_params_eq
    by (simp add: filter_dict_update[of "\<lambda>k. k \<noteq> ''output'' \<and> k \<noteq> ''error''"] vars_additional)
qed

lemma flag_conf_params:
  "array_params flag_conf 3
     = [(''partition'', VStr ''default''), (''nodes'', VBool False), (''array'', VStr ''0-2''),
        (''output'', VStr ''/tmp/log'')]"
  by (simp add: array_params_def flag_conf_def default_conf_def vars_def non_slurm_array_def
        str_int_def str_nat.simps digit_char_def)

section \<open>Properties of the launcher\<close>

text \<open>
  C1, as stated, fails: for a batch of two override lists, two job names and two output
  directories, when \<open>sbatch\<close> cannot be started, \<open>submit_job_array\<close> returns no records;
  the \<open>OSError\<close> of \<open>subprocess.run\<close> leaves it.
\<close>

theorem array_batch_without_scheduler_binary:
  "length [[''a=1''], [''a=2'']] = 2 \<and> length [''job'', ''job''] = 2
   \<and> length [''/s/0'', ''/s/1''] = 2
   \<and> fst (submit_job_array array_conf [[''a=1''], [''a=2'']] [''job'', ''job'']
              [''/s/0'', ''/s/1''] ''/s'' ''/app/main.py'' NotStarted empty_fs)
       = Inl (OSError ''sbatch'')"
  by (simp add: submit_job_array_unfold array_try_body_NotStarted empty_fs_def)

text \<open>
  C1, amended. For a batch of \<open>N\<close> override lists, \<open>N\<close> job names and \<open>N\<close> output
  directories, when the store and the script can be written and \<open>sbatch\<close> is started and
  runs to its end with output that is text, whatever its return code, \<open>submit_job_array\<close>
  returns a list of exactly \<open>N\<close> records, the record at position \<open>i\<close> being the one built
  for task index \<open>i\<close>: completed with the id derived from \<open>i\<close> when the return code is
  zero, failed otherwise. The store written before holds \<open>N\<close> descriptors, the one at
  position \<open>i\<close> made of the \<open>i\<close>-th override list, job name and output directory and
  numbered \<open>i\<close>. When \<open>sbatch\<close> cannot be started, or its output is not text, the
  exception leaves \<open>submit_job_array\<close> and no record is returned.
\<close>

theorem submit_job_array_one_result_per_task:
  assumes "length all_overrides = N" and "length job_names = N" and "length output_dirs = N"
      and "\<not> unwritable fs (array_config_file config sweep_dir)"
      and "\<not> unwritable fs (array_script_path config sweep_dir)"
  shows "(\<exists>array_job_id returns fs'.
           extract_job_id out = Inr array_job_id
         \<and> submit_job_array config all_overrides job_names output_dirs sweep_dir prog
               (Exited returncode out) fs = (Inr returns, fs')
         \<and> length returns = N
         \<and> returns = map (\<lambda>i. if returncode = 0
                                then \<lparr>status = COMPLETED,
                                      return_value = JobIdDict (derived_id array_job_id i)\<rparr>
                                else \<lparr>status = FAILED, return_value = PyNone\<rparr>)
                           [0..<N]
         \<and> files fs' (array_config_file config sweep_dir)
             = Some (JsonDump (config_data all_overrides job_names output_dirs))
         \<and> length (config_data all_overrides job_names output_dirs) = N
         \<and> (\<forall>i<N. config_data all_overrides job_names output_dirs ! i
                      = [(''overrides'', VStr (str_join '' '' (filter_overrides (all_overrides ! i)))),
                         (''job_name'', VStr (job_names ! i)),
                         (''output_dir'', VStr (output_dirs ! i)),
                         (''task_id'', VInt (int i))]))
       \<and> fst (submit_job_array config all_overrides job_names output_dirs sweep_dir prog
                 NotStarted fs) = Inl (OSError ''sbatch'')
       \<and> fst (submit_job_array config all_overrides job_names output_dirs sweep_dir prog
                 Undecodable fs) = Inl UnicodeDecodeError"
proof -
  obtain j where j: "extract_job_id out = Inr j"
    using extract_job_id_total by blast
  define returns where
    "returns = map (\<lambda>i. if returncode = 0
                         then \<lparr>status = COMPLETED, return_value = JobIdDict (derived_id j i)\<rparr>
                         else \<lparr>status = FAILED, return_value = PyNone\<rparr>) [0..<N]"
  define fs' where
    "fs' = snd (submit_job_array config all_overrides job_names output_dirs sweep_dir prog
                  (Exited returncode out) fs)"
  have "fst (submit_job_array config all_overrides job_names output_dirs sweep_dir prog
               (Exited returncode out) fs) = Inr returns"
    using assms(1) j
    by (simp add: submit_job_array_unfold[OF assms(4,5)] array_try_body_Exited map_const_upt
          returns_def)
  then have run:
    "submit_job_array config all_overrides job_names output_dirs sweep_dir prog
       (Exited returncode out) fs = (Inr returns, fs')"
    by (simp add: fs'_def prod_eq_iff)
  have store: "files fs' (array_config_file config sweep_dir)
                 = Some (JsonDump (config_data all_overrides job_names output_dirs))"
    using array_paths_differ[of config sweep_dir]
    by (simp add: fs'_def submit_job_array_unfold[OF assms(4,5)])
  have len: "length returns = N" by (simp add: returns_def)
  have slen: "length (config_data all_overrides job_names output_dirs) = N"
    using assms(1-3) by (simp add: length_config_data)
  have nth: "\<forall>i<N. config_data all_overrides job_names output_dirs ! i
                      = [(''overrides'', VStr (str_join '' '' (filter_overrides (all_overrides ! i)))),
                         (''job_name'', VStr (job_names ! i)),
                         (''output_dir'', VStr (output_dirs ! i)),
                         (''task_id'', VInt (int i))]"
    using assms(1-3) by (simp add: config_data_nth)
  have ran: "\<exists>array_job_id returns fs'.
           extract_job_id out = Inr array_job_id
         \<and> submit_job_array config all_overrides job_names output_dirs sweep_dir prog
               (Exited returncode out) fs = (Inr returns, fs')
         \<and> length returns = N
         \<and> returns = map (\<lambda>i. if returncode = 0
                                then \<lparr>status = COMPLETED,
                                      return_value = JobIdDict (derived_id array_job_id i)\<rparr>
                                else \<lparr>status = FAILED, return_value = PyNone\<rparr>)
                           [0..<N]
         \<and> files fs' (array_config_file config sweep_dir)
             = Some (JsonDump (config_data all_overrides job_names output_dirs))
         \<and> length (config_data all_overrides job_names output_dirs) = N
         \<and> (\<forall>i<N. config_data all_overrides job_names output_dirs ! i
                      = [(''overrides'', VStr (str_join '' '' (filter_overrides (all_overrides ! i)))),
                         (''job_name'', VStr (job_names ! i)),
                         (''output_dir'', VStr (output_dirs ! i)),
                         (''task_id'', VInt (int i))])"
    using j run len store slen nth returns_def by blast
  have not_started:
    "fst (submit_job_array config all_overrides job_names output_dirs sweep_dir prog
            NotStarted fs) = Inl (OSError ''sbatch'')"
    by (simp add: submit_job_array_unfold[OF assms(4,5)] array_try_body_NotStarted)
  have undecodable:
    "fst (submit_job_array config all_overrides job_names output_dirs sweep_dir prog
            Undecodable fs) = Inl UnicodeDecodeError"
    by (simp add: submit_job_array_unfold[OF assms(4,5)] array_try_body_Undecodable)
  from ran not_started undecodable show ?thesis by blast
qed

theorem submit_job_array_one_result_per_task_witness:
  "length [[''a=1''], [''a=2''], [''a=3'']] = 3 \<and> length [''job'', ''job'', ''job''] = 3
   \<and> length [''/s/0'', ''/s/1'', ''/s/2''] = 3
   \<and> \<not> unwritable empty_fs (array_config_file array_conf ''/s'')
   \<and> \<not> unwritable empty_fs (array_script_path array_conf ''/s'')
   \<and> fst (submit_job_array array_conf [[''a=1''], [''a=2''], [''a=3'']] [''job'', ''job'', ''job'']
              [''/s/0'', ''/s/1'', ''/s/2''] ''/s'' ''/app/main.py'' (Exited 1 []) empty_fs)
       = Inr [\<lparr>status = FAILED, return_value = PyNone\<rparr>,
              \<lparr>status = FAILED, return_value = PyNone\<rparr>,
              \<lparr>status = FAILED, return_value = PyNone\<rparr>]
   \<and> fst (submit_job_array array_conf [[''a=1''], [''a=2''], [''a=3'']] [''job'', ''job'', ''job'']
              [''/s/0'', ''/s/1'', ''/s/2''] ''/s'' ''/app/main.py'' NotStarted empty_fs)
       = Inl (OSError ''sbatch'')
   \<and> fst (submit_job_array array_conf [[''a=1''], [''a=2''], [''a=3'']] [''job'', ''job'', ''job'']
              [''/s/0'', ''/s/1'', ''/s/2''] ''/s'' ''/app/main.py'' Undecodable empty_fs)
       = Inl UnicodeDecodeError"
proof -
  have w: "\<not> unwritable empty_fs (array_config_file array_conf ''/s'')"
          "\<not> unwritable empty_fs (array_script_path array_conf ''/s'')"
    by (simp_all add: empty_fs_def)
  have u: "[0..<3] = [0, 1, 2]" by (simp add: upt_rec)
  show ?thesis
    using w u submit_job_array_one_result_per_task
            [where all_overrides = "[[''a=1''], [''a=2''], [''a=3'']]" and N = 3
               and job_names = "[''job'', ''job'', ''job'']"
               and output_dirs = "[''/s/0'', ''/s/1'', ''/s/2'']" and fs = empty_fs
               and config = array_conf and sweep_dir = "''/s''" and prog = "''/app/main.py''"
               and returncode = 1 and out = "[]"]
    by auto
qed

text \<open>
  C2. When \<open>sbatch\<close> exits with code zero and the scan of its output yields the job id
  \<open>J\<close>, the record at every position \<open>i\<close> below \<open>N\<close> is completed and carries the id
  \<open>J\<close>, an underscore and the decimal of \<open>i\<close>; when the scan yields no id, every
  record is completed and carries no id.
\<close>

theorem array_results_carry_derived_ids:
  assumes "length all_overrides = N" and "length job_names = N" and "length output_dirs = N"
      and "\<not> unwritable fs (array_config_file config sweep_dir)"
      and "\<not> unwritable fs (array_script_path config sweep_dir)"
  shows "\<exists>returns fs'.
           submit_job_array config all_overrides job_names output_dirs sweep_dir prog
               (Exited 0 out) fs = (Inr returns, fs')
         \<and> length returns = N
         \<and> (\<forall>J. extract_job_id out = Inr (Some J) \<longrightarrow>
               (\<forall>i<N. returns ! i = \<lparr>status = COMPLETED,
                                       return_value = JobIdDict (Some (J @ ''_'' @ str_int (int i)))\<rparr>))
         \<and> (extract_job_id out = Inr None \<longrightarrow>
               (\<forall>i<N. returns ! i = \<lparr>status = COMPLETED, return_value = JobIdDict None\<rparr>))"
proof -
  obtain j where j: "extract_job_id out = Inr j"
    using extract_job_id_total by blast
  define returns where
    "returns = map (\<lambda>i. \<lparr>status = COMPLETED, return_value = JobIdDict (derived_id j i)\<rparr>) [0..<N]"
  have "fst (submit_job_array config all_overrides job_names output_dirs sweep_dir prog
               (Exited 0 out) fs) = Inr returns"
    using assms(1) j
    by (simp add: submit_job_array_unfold[OF assms(4,5)] array_try_body_Exited returns_def)
  then obtain fs' where run:
    "submit_job_array config all_overrides job_names output_dirs sweep_dir prog
       (Exited 0 out) fs = (Inr returns, fs')"
    by (cases "submit_job_array config all_overrides job_names output_dirs sweep_dir prog
                 (Exited 0 out) fs") auto
  have len: "length returns = N" by (simp add: returns_def)
  have some: "returns ! i = \<lparr>status = COMPLETED,
                             return_value = JobIdDict (Some (J @ ''_'' @ str_int (int i)))\<rparr>"
    if "extract_job_id out = Inr (Some J)" and "i < N" for J i
  proof -
    from that(1) j have "j = Some J" by simp
    moreover from that(1) have "J \<noteq> []" by (rule extract_job_id_nonempty)
    ultimately show ?thesis using that(2) by (simp add: returns_def derived_id_def)
  qed
  have none: "returns ! i = \<lparr>status = COMPLETED, return_value = JobIdDict None\<rparr>"
    if "extract_job_id out = Inr None" and "i < N" for i
    using that j by (simp add: returns_def derived_id_def)
  show ?thesis using run len some none by blast
qed

theorem array_results_carry_derived_ids_witness:
  "length [[''a=1''], [''a=2''], [''a=3'']] = 3 \<and> length [''job'', ''job'', ''job''] = 3
   \<and> length [''/s/0'', ''/s/1'', ''/s/2''] = 3
   \<and> \<not> unwritable empty_fs (array_config_file array_conf ''/s'')
   \<and> \<not> unwritable empty_fs (array_script_path array_conf ''/s'')
   \<and> extract_job_id ''Submitted batch job 555'' = Inr (Some ''555'')
   \<and> fst (submit_job_array array_conf [[''a=1''], [''a=2''], [''a=3'']] [''job'', ''job'', ''job'']
              [''/s/0'', ''/s/1'', ''/s/2''] ''/s'' ''/app/main.py''
              (Exited 0 ''Submitted batch job 555'') empty_fs)
       = Inr [\<lparr>status = COMPLETED, return_value = JobIdDict (Some ''555_0'')\<rparr>,
              \<lparr>status = COMPLETED, return_value = JobIdDict (Some ''555_1'')\<rparr>,
              \<lparr>status = COMPLETED, return_value = JobIdDict (Some ''555_2'')\<rparr>]"
proof -
  have w: "\<not> unwritable empty_fs (array_config_file array_conf ''/s'')"
          "\<not> unwritable empty_fs (array_script_path array_conf ''/s'')"
    by (simp_all add: empty_fs_def)
  have l: "length [[''a=1''], [''a=2''], [''a=3'']] = 3" "length [''job'', ''job'', ''job''] = 3"
          "length [''/s/0'', ''/s/1'', ''/s/2''] = 3"
    by simp_all
  from array_results_carry_derived_ids[OF l w, of "''/app/main.py''" "''Submitted batch job 555''"]
  obtain returns fs' where
    run: "submit_job_array array_conf [[''a=1''], [''a=2''], [''a=3'']] [''job'', ''job'', ''job'']
            [''/s/0'', ''/s/1'', ''/s/2''] ''/s'' ''/app/main.py''
            (Exited 0 ''Submitted batch job 555'') empty_fs = (Inr returns, fs')"
    and len: "length returns = 3"
    and ids: "\<And>J i. extract_job_id ''Submitted batch job 555'' = Inr (Some J) \<Longrightarrow> i < 3 \<Longrightarrow>
                returns ! i = \<lparr>status = COMPLETED,
                                return_value = JobIdDict (Some (J @ ''_'' @ str_int (int i)))\<rparr>"
    by blast
  have "returns = [\<lparr>status = COMPLETED, return_value = JobIdDict (Some ''555_0'')\<rparr>,
                   \<lparr>status = COMPLETED, return_value = JobIdDict (Some ''555_1'')\<rparr>,
                   \<lparr>status = COMPLETED, return_value = JobIdDict (Some ''555_2'')\<rparr>]"
    using len ids[OF extract_555, of 0] ids[OF extract_555, of 1] ids[OF extract_555, of 2]
    by (intro list3_eqI) (simp_all add: str_int_digits)
  with run w l extract_555 show ?thesis by simp
qed

text \<open>
  C3, as stated, fails: when \<open>sbatch\<close> cannot be started, the \<open>OSError\<close> of
  \<open>subprocess.run\<close> is not an instance of \<open>CalledProcessError\<close>, the handler does not
  take it, and it leaves \<open>submit_job_array\<close>.
\<close>

theorem array_spawn_failure_propagates:
  "fst (submit_job_array array_conf [[''a=1''], [''a=2''], [''a=3'']] [''job'', ''job'', ''job'']
          [''/s/0'', ''/s/1'', ''/s/2''] ''/s'' ''/app/main.py'' NotStarted empty_fs)
     = Inl (OSError ''sbatch'')"
  by (simp add: submit_job_array_unfold array_try_body_NotStarted empty_fs_def)

text \<open>
  C3, amended. On the array path a return code other than zero, which \<open>check=True\<close>
  raises as \<open>CalledProcessError\<close>, is caught inside \<open>submit_job_array\<close> and becomes \<open>N\<close>
  failed records with no id; the exception raised when the binary cannot be started is not
  caught and reaches the caller.
\<close>

theorem array_failure_handling:
  assumes "length all_overrides = N" and "length job_names = N" and "length output_dirs = N"
      and "\<not> unwritable fs (array_config_file config sweep_dir)"
      and "\<not> unwritable fs (array_script_path config sweep_dir)"
  shows "(returncode \<noteq> 0 \<longrightarrow>
            fst (submit_job_array config all_overrides job_names output_dirs sweep_dir prog
                   (Exited returncode out) fs)
              = Inr (replicate N \<lparr>status = FAILED, return_value = PyNone\<rparr>))
       \<and> fst (submit_job_array config all_overrides job_names output_dirs sweep_dir prog
                 NotStarted fs)
              = Inl (OSError ''sbatch'')"
  using assms(1)
  by (simp add: submit_job_array_unfold[OF assms(4,5)] array_try_body_Exited
        array_try_body_NotStarted)

theorem array_failure_handling_witness:
  "length [[''a=1''], [''a=2''], [''a=3'']] = 3 \<and> length [''job'', ''job'', ''job''] = 3
   \<and> length [''/s/0'', ''/s/1'', ''/s/2''] = 3
   \<and> \<not> unwritable empty_fs (array_config_file array_conf ''/s'')
   \<and> \<not> unwritable empty_fs (array_script_path array_conf ''/s'')
   \<and> (2::int) \<noteq> 0
   \<and> fst (submit_job_array array_conf [[''a=1''], [''a=2''], [''a=3'']] [''job'', ''job'', ''job'']
              [''/s/0'', ''/s/1'', ''/s/2''] ''/s'' ''/app/main.py''
              (Exited 2 ''sbatch: error: invalid partition'') empty_fs)
       = Inr [\<lparr>status = FAILED, return_value = PyNone\<rparr>,
              \<lparr>status = FAILED, return_value = PyNone\<rparr>,
              \<lparr>status = FAILED, return_value = PyNone\<rparr>]
   \<and> job_id_of \<lparr>status = FAILED, return_value = PyNone\<rparr> = None
   \<and> fst (submit_job_array array_conf [[''a=1''], [''a=2''], [''a=3'']] [''job'', ''job'', ''job'']
              [''/s/0'', ''/s/1'', ''/s/2''] ''/s'' ''/app/main.py'' NotStarted empty_fs)
       = Inl (OSError ''sbatch'')"
proof -
  have w: "\<not> unwritable empty_fs (array_config_file array_conf ''/s'')"
          "\<not> unwritable empty_fs (array_script_path array_conf ''/s'')"
    by (simp_all add: empty_fs_def)
  have l: "length [[''a=1''], [''a=2''], [''a=3'']] = 3" "length [''job'', ''job'', ''job''] = 3"
          "length [''/s/0'', ''/s/1'', ''/s/2''] = 3"
    by simp_all
  have r: "replicate 3 x = [x, x, x]" for x :: JobReturn
    by (simp add: numeral_3_eq_3)
  show ?thesis
    using array_failure_handling[OF l w, of 2 "''/app/main.py''" "''sbatch: error: invalid partition''"] w
    by (simp add: r job_id_of_def)
qed

text \<open>
  C4. The specification has \<open>submit_job\<close> return a failed outcome with no job id when
  \<open>sbatch\<close> exits with a code other than zero. The code raises instead: with
  \<open>check=True\<close> the call of \<open>subprocess.run\<close> raises \<open>CalledProcessError\<close>, no handler
  stands around it, and the branch that sets the failed status is never reached. Evaluated
  at return code 1:
\<close>

theorem submit_job_nonzero_exit_raises:
  "fst (submit_job default_conf [''a=1''] ''job'' ''/s/0'' ''/app/main.py'' (Exited 1 []) empty_fs)
     = Inl (CalledProcessError 1)"
  by (simp add: submit_job_nonzero_exit empty_fs_def)

text \<open>
  C5. Constructor arguments that set both \<open>job_name\<close> and \<open>job_array_name\<close>, or both
  \<open>gpus\<close> and \<open>gres\<close>, make the constructor raise \<open>ValueError\<close>; no configuration
  object comes out of them, and whatever the program would have done with the object
  afterwards does not run, so the file system is as it was.
\<close>

theorem exclusive_fields_rejected:
  assumes "(job_name kwargs \<noteq> VNone \<and> job_array_name kwargs \<noteq> VNone)
           \<or> (gpus kwargs \<noteq> VNone \<and> gres kwargs \<noteq> VNone)"
  shows "\<exists>msg. post_init kwargs = Inl (ValueError msg)
              \<and> (\<forall>config. post_init kwargs \<noteq> Inr config)
              \<and> (\<forall>launch fs. construct_then kwargs launch fs = (Inl (ValueError msg), fs))"
  using assms by (auto simp: post_init_def construct_then_def Let_def)

theorem exclusive_fields_rejected_witness:
  "gpus (default_conf\<lparr>gres := VStr ''gpu:1'', gpus := VInt 2\<rparr>) \<noteq> VNone
   \<and> gres (default_conf\<lparr>gres := VStr ''gpu:1'', gpus := VInt 2\<rparr>) \<noteq> VNone
   \<and> post_init (default_conf\<lparr>gres := VStr ''gpu:1'', gpus := VInt 2\<rparr>)
       = Inl (ValueError (''Cannot specify both '' @ quoted ''gpus'' @ '' and '' @ quoted ''gres''))
   \<and> job_name (default_conf\<lparr>job_name := VStr ''train'', job_array_name := VStr ''sweep''\<rparr>) \<noteq> VNone
   \<and> job_array_name (default_conf\<lparr>job_name := VStr ''train'', job_array_name := VStr ''sweep''\<rparr>) \<noteq> VNone
   \<and> post_init (default_conf\<lparr>job_name := VStr ''train'', job_array_name := VStr ''sweep''\<rparr>)
       = Inl (ValueError (''Cannot specify both '' @ quoted ''job_name'' @ '' and ''
                          @ quoted ''job_array_name''))
   \<and> snd (construct_then (default_conf\<lparr>job_name := VStr ''train'', job_array_name := VStr ''sweep''\<rparr>)
              (\<lambda>config. submit_job_array config [[''a=1'']] [''job''] [''/s/0''] ''/s''
                            ''/app/main.py'' (Exited 0 ''Submitted batch job 555''))
              empty_fs) = empty_fs"
proof -
  let ?a = "default_conf\<lparr>gres := VStr ''gpu:1'', gpus := VInt 2\<rparr>"
  let ?b = "default_conf\<lparr>job_name := VStr ''train'', job_array_name := VStr ''sweep''\<rparr>"
  have a: "gpus ?a \<noteq> VNone" "gres ?a \<noteq> VNone" and b: "job_name ?b \<noteq> VNone" "job_array_name ?b \<noteq> VNone"
    by simp_all
  have pa: "post_init ?a = Inl (ValueError (''Cannot specify both '' @ quoted ''gpus'' @ '' and '' @ quoted ''gres''))"
    using exclusive_fields_rejected[of ?a] a by (auto simp: post_init_def)
  have pb: "post_init ?b = Inl (ValueError (''Cannot specify both '' @ quoted ''job_name'' @ '' and ''
                          @ quoted ''job_array_name''))"
    using exclusive_fields_rejected[of ?b] b by (auto simp: post_init_def default_conf_def)
  from exclusive_fields_rejected[of ?b] b obtain msg where
    "\<And>launch fs. construct_then ?b launch (fs::filesystem) = (Inl (ValueError msg) :: pyerr + (pyerr + JobReturn list), fs)"
    by blast
  then have "snd (construct_then ?b
              (\<lambda>config. submit_job_array config [[''a=1'']] [''job''] [''/s/0''] ''/s''
                            ''/app/main.py'' (Exited 0 ''Submitted batch job 555''))
              empty_fs) = empty_fs"
    by simp
  with a b pa pb show ?thesis by blast
qed

text \<open>
  C6, as stated, fails: the constructor turns a GPU count of 2 into \<open>gres = "gpu:2"\<close>,
  but \<open>gpus\<close> stays set and is in neither \<open>non_slurm\<close> list, so both the array script and
  the single-job script carry the line \<open>#SBATCH --gpus=2\<close>.
\<close>

theorem gpus_key_emitted:
  "post_init gpu_kwargs = Inr gpu_conf
   \<and> ''#SBATCH --gpus=2'' \<in> set (array_script_lines gpu_conf (VStr ''sweep'') 3
                                     ''/s/sweep_array_config.json'' ''/app/main.py'')
   \<and> ''#SBATCH --gpus=2'' \<in> set (slurm_script_lines (with_job_name gpu_conf ''job'') ''/s/0'' ''run'')"
proof -
  have "''#SBATCH --gpus=2'' \<in> set (array_directives gpu_conf 3)"
    by (simp add: gpu_conf_directives)
  then have "''#SBATCH --gpus=2'' \<in> set (array_script_lines gpu_conf (VStr ''sweep'') 3
                                     ''/s/sweep_array_config.json'' ''/app/main.py'')"
    by (rule array_directive_in_script)
  moreover have "''#SBATCH --gpus=2'' \<in> set (slurm_script_lines (with_job_name gpu_conf ''job'') ''/s/0'' ''run'')"
    by (simp add: gpu_conf_single)
  ultimately show ?thesis using post_init_gpu_kwargs by simp
qed

text \<open>
  C6, amended. When \<open>gpus\<close> is given, the constructor sets \<open>gres\<close> to \<open>gpu:\<close> followed by
  the count, before any script is rendered, and leaves \<open>gpus\<close> as it is; every script
  generated from the object carries the directive rendered from \<open>gres\<close> and the directive
  rendered from \<open>gpus\<close>, each unless \<open>additional\<close> has an entry under the same key.
\<close>

theorem gpus_expanded_into_gres:
  assumes "post_init kwargs = Inr config" and "gpus kwargs \<noteq> VNone"
  shows "gres config = VStr (''gpu:'' @ py_str (gpus kwargs))
       \<and> gpus config = gpus kwargs
       \<and> (''gres'' \<notin> fst ` set (additional config) \<longrightarrow>
            as_sbatch_flag ''gres'' (gres config)
              \<in> set (array_script_lines config array_name n config_file prog)
          \<and> as_sbatch_flag ''gres'' (gres config)
              \<in> set (slurm_script_lines (with_job_name config name) output_dir command))
       \<and> (''gpus'' \<notin> fst ` set (additional config) \<longrightarrow>
            as_sbatch_flag ''gpus'' (gpus config)
              \<in> set (array_script_lines config array_name n config_file prog)
          \<and> as_sbatch_flag ''gpus'' (gpus config)
              \<in> set (slurm_script_lines (with_job_name config name) output_dir command))"
proof -
  have c: "config = kwargs\<lparr>gres := VStr (''gpu:'' @ py_str (gpus kwargs))\<rparr>"
    using assms by (rule post_init_gpus)
  then have g: "gres config = VStr (''gpu:'' @ py_str (gpus kwargs))" "gpus config = gpus kwargs"
    by simp_all
  have nn: "gres config \<noteq> VNone" "gpus config \<noteq> VNone"
    using g assms(2) by simp_all
  let ?c' = "with_job_name config name"
  have c': "gres ?c' = gres config" "gpus ?c' = gpus config" "additional ?c' = additional config"
    by (simp_all add: with_job_name_def)
  have v: "(''gres'', gres c) \<in> set (vars c)" "(''gpus'', gpus c) \<in> set (vars c)" for c
    by (simp_all add: vars_def)
  have ns: "''gres'' \<notin> set non_slurm_array" "''gpus'' \<notin> set non_slurm_array"
           "''gres'' \<notin> set non_slurm_single" "''gpus'' \<notin> set non_slurm_single"
    by (simp_all add: non_slurm_array_def non_slurm_single_def)
  have "as_sbatch_flag k (f config) \<in> set (array_script_lines config array_name n config_file prog)
      \<and> as_sbatch_flag k (f config) \<in> set (slurm_script_lines ?c' output_dir command)"
    if "(k, f config) \<in> set (vars config)" and "(k, f config) \<in> set (vars ?c')"
      and "f config \<noteq> VNone" and "k \<notin> set non_slurm_array" and "k \<notin> set non_slurm_single"
      and "k \<notin> fst ` set (additional config)" for k f
  proof
    have "(k, f config) \<in> set (array_params config n)"
      using array_params_field[OF that(1,4,6)] that(3) by simp
    then have "as_sbatch_flag k (f config) \<in> set (array_directives config n)"
      using vars_key_not_path(2,3)[OF that(1)] by (rule array_directive_of_param)
    then show "as_sbatch_flag k (f config) \<in> set (array_script_lines config array_name n config_file prog)"
      by (rule array_directive_in_script)
    show "as_sbatch_flag k (f config) \<in> set (slurm_script_lines ?c' output_dir command)"
      using that(2,3,5,6) c'(3) by (intro slurm_directive_of_field) simp_all
  qed
  note both = this
  have "''gres'' \<notin> fst ` set (additional config) \<Longrightarrow>
            as_sbatch_flag ''gres'' (gres config)
              \<in> set (array_script_lines config array_name n config_file prog)
          \<and> as_sbatch_flag ''gres'' (gres config)
              \<in> set (slurm_script_lines (with_job_name config name) output_dir command)"
    using both[of "''gres''" gres] v[of config] v[of ?c'] c' nn ns by simp
  moreover have "''gpus'' \<notin> fst ` set (additional config) \<Longrightarrow>
            as_sbatch_flag ''gpus'' (gpus config)
              \<in> set (array_script_lines config array_name n config_file prog)
          \<and> as_sbatch_flag ''gpus'' (gpus config)
              \<in> set (slurm_script_lines (with_job_name config name) output_dir command)"
    using both[of "''gpus''" gpus] v[of config] v[of ?c'] c' nn ns by simp
  ultimately show ?thesis using g by blast
qed

theorem gpus_expanded_into_gres_witness:
  "post_init gpu_kwargs = Inr gpu_conf \<and> gpus gpu_kwargs \<noteq> VNone
   \<and> gres gpu_conf = VStr ''gpu:2'' \<and> gpus gpu_conf = VInt 2
   \<and> ''gres'' \<notin> fst ` set (additional gpu_conf) \<and> ''gpus'' \<notin> fst ` set (additional gpu_conf)
   \<and> ''#SBATCH --gres=gpu:2'' \<in> set (array_script_lines gpu_conf (VStr ''sweep'') 3
                                         ''/s/sweep_array_config.json'' ''/app/main.py'')
   \<and> ''#SBATCH --gres=gpu:2'' \<in> set (slurm_script_lines (with_job_name gpu_conf ''job'') ''/s/0'' ''run'')
   \<and> ''#SBATCH --gpus=2'' \<in> set (array_script_lines gpu_conf (VStr ''sweep'') 3
                                     ''/s/sweep_array_config.json'' ''/app/main.py'')
   \<and> ''#SBATCH --gpus=2'' \<in> set (slurm_script_lines (with_job_name gpu_conf ''job'') ''/s/0'' ''run'')"
proof -
  have h: "gpus gpu_kwargs \<noteq> VNone"
    by (simp add: gpu_kwargs_def)
  have a: "''gres'' \<notin> fst ` set (additional gpu_conf)" "''gpus'' \<notin> fst ` set (additional gpu_conf)"
    by (simp_all add: gpu_conf_def default_conf_def)
  have f: "as_sbatch_flag ''gres'' (VStr ''gpu:2'') = ''#SBATCH --gres=gpu:2''"
          "as_sbatch_flag ''gpus'' (VInt 2) = ''#SBATCH --gpus=2''"
    by (simp_all add: as_sbatch_flag_def replace_char_def shlex_quote_def shlex_safe_def
          str_int_def str_nat.simps digit_char_def)
  have p: "gpus gpu_kwargs = VInt 2" "gres gpu_conf = VStr ''gpu:2''" "gpus gpu_conf = VInt 2"
    by (simp_all add: gpu_kwargs_def gpu_conf_def)
  show ?thesis
    using gpus_expanded_into_gres[OF post_init_gpu_kwargs h, of "VStr ''sweep''" 3
            "''/s/sweep_array_config.json''" "''/app/main.py''" "''job''" "''/s/0''" "''run''"]
          post_init_gpu_kwargs a
    by (simp add: f p str_int_digits)
qed

text \<open>
  C7. Where the script can be written, \<open>generate_slurm_script\<close> returns, and the
  configuration object it leaves is the one it was given, field for field; the script it
  wrote was rendered from the object with \<open>job_name\<close> set to the parameter when the
  attribute was None.
\<close>

theorem generate_slurm_script_restores_job_name:
  assumes "\<not> unwritable fs (slurm_script_path output_dir name)"
  shows "\<exists>fs'. generate_slurm_script config name output_dir command fs
                 = (Inr (slurm_script_path output_dir name), config, fs')
              \<and> files fs' (slurm_script_path output_dir name)
                  = Some (Text (str_join [CHR 0x0A]
                            (slurm_script_lines (with_job_name config name) output_dir command)))"
  using assms by (simp add: generate_slurm_script_unfold)

theorem generate_slurm_script_restores_job_name_witness:
  "\<not> unwritable empty_fs (slurm_script_path ''/s/0'' ''job'')
   \<and> job_name default_conf = VNone
   \<and> fst (snd (generate_slurm_script default_conf ''job'' ''/s/0'' ''run'' empty_fs)) = default_conf
   \<and> files (snd (snd (generate_slurm_script default_conf ''job'' ''/s/0'' ''run'' empty_fs)))
        (slurm_script_path ''/s/0'' ''job'')
      = Some (Text (str_join [CHR 0x0A]
           [''#!/bin/bash'', '' '', ''# SLURM parameters'',
            ''#SBATCH --partition=default'', ''#SBATCH --job-name=job'',
            ''#SBATCH --output=/s/0/job_%j.out'', ''#SBATCH --error=/s/0/job_%j.err'',
            '' '', ''# Run the command'', ''run'']))"
proof -
  have w: "\<not> unwritable empty_fs (slurm_script_path ''/s/0'' ''job'')"
    by (simp add: empty_fs_def)
  from generate_slurm_script_restores_job_name[OF w, of default_conf "''run''"]
  obtain fs' where
    "generate_slurm_script default_conf ''job'' ''/s/0'' ''run'' empty_fs
       = (Inr (slurm_script_path ''/s/0'' ''job''), default_conf, fs')"
    and "files fs' (slurm_script_path ''/s/0'' ''job'')
           = Some (Text (str_join [CHR 0x0A]
                     (slurm_script_lines (with_job_name default_conf ''job'') ''/s/0'' ''run'')))"
    by blast
  moreover have "job_name default_conf = VNone"
    by (simp add: default_conf_def)
  ultimately show ?thesis using w by (simp add: slurm_lines_default)
qed

text \<open>
  C8, as stated, fails: for a batch of three tasks and an \<open>additional\<close> dict with the
  entry \<open>array = "0-9%2"\<close>, the script has the directive \<open>--array=0-9%2\<close> and none with
  the range \<open>0-2\<close>.
\<close>

theorem array_range_overridden:
  "''#SBATCH --array=0-2'' \<notin> set (array_script_lines throttled_conf (VStr ''sweep'') 3 ''/s/sweep_array_config.json'' ''/app/main.py'')
  \<and> ''#SBATCH --array=0-9%2'' \<in> set (array_script_lines throttled_conf (VStr ''sweep'') 3 ''/s/sweep_array_config.json'' ''/app/main.py'')"
proof -
  have "setup_cmds throttled_conf = []"
    by (simp add: throttled_conf_def default_conf_def)
  then show ?thesis
    by (simp add: array_script_lines_def throttled_directives runtime_lines_def)
qed

text \<open>
  C8, amended. For every batch size \<open>N \<ge> 1\<close> the array script (the text
  \<open>generate_array_script\<close> writes) starts with the interpreter line, a blank line, a
  comment, the job name directive, and the output and error directives set to
  \<open>/dev/null\<close>; the directives that follow are rendered, in order, from the entries of
  \<open>params\<close> whose key is neither \<open>output\<close> nor \<open>error\<close>, so that entries of
  \<open>additional\<close> under these two keys leave the script as it is without them; and the
  script has the directive \<open>--array=0-<N-1>\<close> whenever \<open>additional\<close> has no entry under
  the key \<open>array\<close>.
\<close>

theorem array_script_directive_block:
  assumes "1 \<le> N"
  shows "array_script_lines config array_name N config_file prog
           = [''#!/bin/bash'', '' '', ''# SLURM parameters'',
              ''#SBATCH --job-name='' @ py_str array_name,
              ''#SBATCH --output=/dev/null'', ''#SBATCH --error=/dev/null'']
             @ map (\<lambda>(k, v). as_sbatch_flag k v)
                 (filter (\<lambda>(k, v). k \<noteq> ''output'' \<and> k \<noteq> ''error'') (array_params config N))
             @ runtime_lines config_file
             @ (if setup_cmds config \<noteq> [] then ['' '', ''# Setup commands''] @ setup_cmds config
                else [])
             @ ['' '', ''# Run the command'',
                ''python '' @ prog @ '' hydra.launcher=basic $OVERRIDES'']
       \<and> array_script_lines config array_name N config_file prog
           = array_script_lines
               (config\<lparr>additional := filter (\<lambda>(k, v). k \<noteq> ''output'' \<and> k \<noteq> ''error'')
                                          (additional config)\<rparr>)
               array_name N config_file prog
       \<and> (''array'' \<notin> fst ` set (additional config) \<longrightarrow>
             ''#SBATCH --array=0-'' @ str_nat (N - 1)
               \<in> set (array_script_lines config array_name N config_file prog))
       \<and> (\<not> unwritable fs (os_path_join sweep_dir (py_str array_name @ ''_array.sh'')) \<longrightarrow>
             fst (generate_array_script config array_name N config_file sweep_dir prog fs)
               = Inr (os_path_join sweep_dir (py_str array_name @ ''_array.sh''))
           \<and> files (snd (generate_array_script config array_name N config_file sweep_dir prog fs))
                 (os_path_join sweep_dir (py_str array_name @ ''_array.sh''))
               = Some (Text (str_join [CHR 0x0A]
                         (array_script_lines config array_name N config_file prog))))"
proof -
  have shape: "array_script_lines config array_name N config_file prog
           = [''#!/bin/bash'', '' '', ''# SLURM parameters'',
              ''#SBATCH --job-name='' @ py_str array_name,
              ''#SBATCH --output=/dev/null'', ''#SBATCH --error=/dev/null'']
             @ map (\<lambda>(k, v). as_sbatch_flag k v)
                 (filter (\<lambda>(k, v). k \<noteq> ''output'' \<and> k \<noteq> ''error'') (array_params config N))
             @ runtime_lines config_file
             @ (if setup_cmds config \<noteq> [] then ['' '', ''# Setup commands''] @ setup_cmds config
                else [])
             @ ['' '', ''# Run the command'',
                ''python '' @ prog @ '' hydra.launcher=basic $OVERRIDES'']"
    by (simp add: array_script_lines_def array_directives_eq)
  have ignore: "array_script_lines config array_name N config_file prog
           = array_script_lines
               (config\<lparr>additional := filter (\<lambda>(k, v). k \<noteq> ''output'' \<and> k \<noteq> ''error'')
                                          (additional config)\<rparr>)
               array_name N config_file prog"
    by (simp add: array_script_lines_def array_directives_ignore_output_error)
  have rng: "''#SBATCH --array=0-'' @ str_nat (N - 1)
               \<in> set (array_script_lines config array_name N config_file prog)"
    if "''array'' \<notin> fst ` set (additional config)"
  proof -
    have "(''array'', VStr (''0-'' @ str_int (int N - 1))) \<in> set (array_params config N)"
      unfolding array_params_eq using dict_set_has that by (rule dict_update_keeps)
    then have "as_sbatch_flag ''array'' (VStr (''0-'' @ str_int (int N - 1)))
                 \<in> set (array_directives config N)"
      by (rule array_directive_of_param) simp_all
    then have "''#SBATCH --array=0-'' @ str_nat (N - 1) \<in> set (array_directives config N)"
      by (simp only: array_range_flag[OF assms])
    then show ?thesis by (rule array_directive_in_script)
  qed
  have written:
    "fst (generate_array_script config array_name N config_file sweep_dir prog fs)
       = Inr (os_path_join sweep_dir (py_str array_name @ ''_array.sh''))
     \<and> files (snd (generate_array_script config array_name N config_file sweep_dir prog fs))
          (os_path_join sweep_dir (py_str array_name @ ''_array.sh''))
        = Some (Text (str_join [CHR 0x0A]
                  (array_script_lines config array_name N config_file prog)))"
    if "\<not> unwritable fs (os_path_join sweep_dir (py_str array_name @ ''_array.sh''))"
    using that by (simp add: generate_array_script_def write_file_def Let_def)
  from shape ignore rng written show ?thesis by blast
qed

theorem array_script_directive_block_witness:
  "(1::nat) \<le> 3
   \<and> (''output'', VStr ''/tmp/log'') \<in> set (array_params flag_conf 3)
   \<and> ''array'' \<notin> fst ` set (additional flag_conf)
   \<and> \<not> unwritable empty_fs (os_path_join ''/s'' (py_str (VStr ''sweep'') @ ''_array.sh''))
   \<and> array_script_lines flag_conf (VStr ''sweep'') 3 ''/s/sweep_array_config.json'' ''/app/main.py''
       = [''#!/bin/bash'', '' '', ''# SLURM parameters'', ''#SBATCH --job-name=sweep'',
          ''#SBATCH --output=/dev/null'', ''#SBATCH --error=/dev/null'',
          ''#SBATCH --partition=default'', ''#SBATCH --nodes'', ''#SBATCH --array=0-2'']
         @ runtime_lines ''/s/sweep_array_config.json''
         @ ['' '', ''# Run the command'', ''python /app/main.py hydra.launcher=basic $OVERRIDES'']
   \<and> ''#SBATCH --output=/tmp/log''
       \<notin> set (array_script_lines flag_conf (VStr ''sweep'') 3 ''/s/sweep_array_config.json''
                 ''/app/main.py'')
   \<and> ''#SBATCH --array=0-2''
       \<in> set (array_script_lines flag_conf (VStr ''sweep'') 3 ''/s/sweep_array_config.json''
                 ''/app/main.py'')
   \<and> files (snd (generate_array_script flag_conf (VStr ''sweep'') 3 ''/s/sweep_array_config.json''
                    ''/s'' ''/app/main.py'' empty_fs))
         ''/s/sweep_array.sh''
       = Some (Text (str_join [CHR 0x0A]
                 (array_script_lines flag_conf (VStr ''sweep'') 3 ''/s/sweep_array_config.json''
                    ''/app/main.py'')))"
proof -
  let ?lines = "array_script_lines flag_conf (VStr ''sweep'') 3 ''/s/sweep_array_config.json''
                  ''/app/main.py''"
  have a: "''array'' \<notin> fst ` set (additional flag_conf)" "setup_cmds flag_conf = []"
    by (simp_all add: flag_conf_def default_conf_def)
  have p: "os_path_join ''/s'' (py_str (VStr ''sweep'') @ ''_array.sh'') = ''/s/sweep_array.sh''"
    by (simp add: os_path_join_def endswith_def)
  have w: "\<not> unwritable empty_fs (os_path_join ''/s'' (py_str (VStr ''sweep'') @ ''_array.sh''))"
    by (simp add: empty_fs_def)
  have o: "(''output'', VStr ''/tmp/log'') \<in> set (array_params flag_conf 3)"
    by (simp add: flag_conf_params)
  have d': "''#SBATCH --array=0-'' @ str_nat (3 - 1) = ''#SBATCH --array=0-2''"
    by (simp add: str_nat.simps digit_char_def)
  have r: "as_sbatch_flag ''partition'' (VStr ''default'') = ''#SBATCH --partition=default''"
          "as_sbatch_flag ''nodes'' (VBool False) = ''#SBATCH --nodes''"
          "as_sbatch_flag ''array'' (VStr ''0-2'') = ''#SBATCH --array=0-2''"
    by (simp_all add: as_sbatch_flag_def replace_char_def shlex_quote_def shlex_safe_def)
  have n: "(1::nat) \<le> 3" by simp
  note inst = array_script_directive_block[OF n, of flag_conf "VStr ''sweep''"
                "''/s/sweep_array_config.json''" "''/app/main.py''" empty_fs "''/s''"]
  note shape = inst[THEN conjunct1]
  note rng = inst[THEN conjunct2, THEN conjunct2, THEN conjunct1]
  note written = inst[THEN conjunct2, THEN conjunct2, THEN conjunct2]
  have lines: "?lines
       = [''#!/bin/bash'', '' '', ''# SLURM parameters'', ''#SBATCH --job-name=sweep'',
          ''#SBATCH --output=/dev/null'', ''#SBATCH --error=/dev/null'',
          ''#SBATCH --partition=default'', ''#SBATCH --nodes'', ''#SBATCH --array=0-2'']
         @ runtime_lines ''/s/sweep_array_config.json''
         @ ['' '', ''# Run the command'', ''python /app/main.py hydra.launcher=basic $OVERRIDES'']"
    unfolding shape by (simp add: flag_conf_params r a(2))
  have absent: "''#SBATCH --output=/tmp/log'' \<notin> set ?lines"
    unfolding lines by (simp add: runtime_lines_def)
  have present: "''#SBATCH --array=0-2'' \<in> set ?lines"
    using rng[THEN mp, OF a(1)] by (simp only: d')
  have wr: "files (snd (generate_array_script flag_conf (VStr ''sweep'') 3
                       ''/s/sweep_array_config.json'' ''/s'' ''/app/main.py'' empty_fs))
                ''/s/sweep_array.sh''
                = Some (Text (str_join [CHR 0x0A] ?lines))"
    using written w unfolding p by blast
  from o a(1) w lines absent present wr show ?thesis by simp
qed

text \<open>
  C9, as stated, fails: a batch of two override lists, one job name and one output
  directory is not rejected; two records come back.
\<close>

theorem array_unequal_lengths_accepted:
  "fst (submit_job_array array_conf [[''a=1''], [''a=2'']] [''job''] [''/s/0''] ''/s''
          ''/app/main.py'' (Exited 0 ''Submitted batch job 555'') empty_fs)
     = Inr [\<lparr>status = COMPLETED, return_value = JobIdDict (Some ''555_0'')\<rparr>,
            \<lparr>status = COMPLETED, return_value = JobIdDict (Some ''555_1'')\<rparr>]"
proof -
  have "[0..<2] = [0, 1]" by (simp add: upt_rec)
  then show ?thesis
    by (simp add: submit_job_array_unfold array_try_body_Exited empty_fs_def extract_555
          derived_id_def str_int_digits)
qed

text \<open>
  C9, amended. \<open>submit_job_array\<close> compares no lengths. For any three lists it returns
  one record per override list, and the store it writes holds as many descriptors as the
  shortest of the three lists has elements.
\<close>

theorem array_lengths_not_validated:
  assumes "\<not> unwritable fs (array_config_file config sweep_dir)"
      and "\<not> unwritable fs (array_script_path config sweep_dir)"
  shows "\<exists>returns fs'.
           submit_job_array config all_overrides job_names output_dirs sweep_dir prog
               (Exited returncode out) fs = (Inr returns, fs')
         \<and> length returns = length all_overrides
         \<and> files fs' (array_config_file config sweep_dir)
             = Some (JsonDump (config_data all_overrides job_names output_dirs))
         \<and> length (config_data all_overrides job_names output_dirs)
             = min (length all_overrides) (min (length job_names) (length output_dirs))"
proof -
  obtain j where j: "extract_job_id out = Inr j"
    using extract_job_id_total by blast
  show ?thesis
    using j array_paths_differ[of config sweep_dir]
    by (simp add: submit_job_array_unfold[OF assms] array_try_body_Exited length_config_data)
qed

theorem array_lengths_not_validated_witness:
  "\<not> unwritable empty_fs (array_config_file array_conf ''/s'')
   \<and> \<not> unwritable empty_fs (array_script_path array_conf ''/s'')
   \<and> (\<exists>returns fs'.
         submit_job_array array_conf [[''a=1''], [''a=2'']] [''job''] [''/s/0''] ''/s''
            ''/app/main.py'' (Exited 0 ''Submitted batch job 555'') empty_fs = (Inr returns, fs')
       \<and> length returns = 2
       \<and> files fs' (array_config_file array_conf ''/s'')
           = Some (JsonDump [[(''overrides'', VStr ''a=1''), (''job_name'', VStr ''job''),
                              (''output_dir'', VStr ''/s/0''), (''task_id'', VInt 0)]]))
   \<and> length (config_data [[''a=1''], [''a=2'']] [''job''] [''/s/0'']) = 1"
proof -
  have w: "\<not> unwritable empty_fs (array_config_file array_conf ''/s'')"
          "\<not> unwritable empty_fs (array_script_path array_conf ''/s'')"
    by (simp_all add: empty_fs_def)
  have c: "config_data [[''a=1''], [''a=2'']] [''job''] [''/s/0'']
             = [[(''overrides'', VStr ''a=1''), (''job_name'', VStr ''job''),
                 (''output_dir'', VStr ''/s/0''), (''task_id'', VInt 0)]]"
    by (simp add: config_data_def enumerate_eq_zip filter_overrides_def)
  show ?thesis
    using w array_lengths_not_validated[OF w, of "[[''a=1''], [''a=2'']]" "[''job'']" "[''/s/0'']"
                "''/app/main.py''" 0 "''Submitted batch job 555''"]
    by (simp add: c numeral_2_eq_2)
qed



end
